theory Spec2Isabelle
  imports Main
begin

section \<open>Task schema (app/schemas/task.py, app/models/task.py)\<close>

text \<open>
  The three task states and the four priorities are the string enums of the schema
  module. \<open>state_value\<close> and \<open>priority_value\<close> give the \<open>.value\<close> of a member.
\<close>

datatype TaskState = NOT_STARTED | IN_PROGRESS | COMPLETED

datatype TaskPriority = LOW | MEDIUM | HIGH | URGENT

fun state_value :: "TaskState \<Rightarrow> string" where
  "state_value NOT_STARTED = ''Not Started''"
| "state_value IN_PROGRESS = ''In Progress''"
| "state_value COMPLETED = ''Completed''"

fun priority_value :: "TaskPriority \<Rightarrow> string" where
  "priority_value LOW = ''LOW''"
| "priority_value MEDIUM = ''MEDIUM''"
| "priority_value HIGH = ''HIGH''"
| "priority_value URGENT = ''URGENT''"

text \<open>\<open>TaskState.get_valid_transitions\<close>: the transition table, one list per state.\<close>

fun get_valid_transitions :: "TaskState \<Rightarrow> TaskState list" where
  "get_valid_transitions NOT_STARTED = [IN_PROGRESS]"
| "get_valid_transitions IN_PROGRESS = [COMPLETED]"
| "get_valid_transitions COMPLETED = []"

definition is_valid_transition :: "TaskState \<Rightarrow> TaskState \<Rightarrow> bool" where
  "is_valid_transition from_state to_state =
     (to_state \<in> set (get_valid_transitions from_state))"

text \<open>
  Calendar dates and times of day, as the \<open>date\<close> and \<open>time\<close> objects the schema
  stores: (year, month, day) and (hour, minute, second).
\<close>

type_synonym date = "nat \<times> nat \<times> nat"
type_synonym time = "nat \<times> nat \<times> nat"

text \<open>
  A row of the \<open>tasks\<close> table. The two timestamp columns are filled by the database
  server and read by no operation of the services; they are left out.
\<close>

record Task =
  task_id :: nat
  title :: string
  description :: "string option"
  state :: TaskState
  priority :: TaskPriority
  category :: "string option"
  scheduled_date :: "date option"
  scheduled_time :: "time option"
  due_date :: "date option"
  due_time :: "time option"
  reminder_time :: "int option"
  user_id :: nat

text \<open>\<open>TaskCreate\<close> (it is \<open>TaskBase\<close>): no state field exists in a create request.\<close>

record TaskCreate =
  c_title :: string
  c_description :: "string option"
  c_priority :: TaskPriority
  c_category :: "string option"
  c_scheduled_date :: "date option"
  c_scheduled_time :: "time option"
  c_due_date :: "date option"
  c_due_time :: "time option"
  c_reminder_time :: "int option"

text \<open>\<open>TaskCreate(title=t)\<close>: every other field takes its declared default.\<close>

definition TaskCreate_of_title :: "string \<Rightarrow> TaskCreate" where
  "TaskCreate_of_title t =
     \<lparr>c_title = t, c_description = None, c_priority = MEDIUM, c_category = None,
      c_scheduled_date = None, c_scheduled_time = None, c_due_date = None,
      c_due_time = None, c_reminder_time = None\<rparr>"

record TaskUpdate =
  u_title :: "string option"
  u_description :: "string option"
  u_state :: "TaskState option"
  u_priority :: "TaskPriority option"
  u_category :: "string option"
  u_scheduled_date :: "date option"
  u_scheduled_time :: "time option"
  u_due_date :: "date option"
  u_due_time :: "time option"
  u_reminder_time :: "int option"

text \<open>\<open>TaskUpdate(state=s)\<close>, the request the command dispatcher builds.\<close>

definition TaskUpdate_of_state :: "TaskState \<Rightarrow> TaskUpdate" where
  "TaskUpdate_of_state s =
     \<lparr>u_title = None, u_description = None, u_state = Some s, u_priority = None,
      u_category = None, u_scheduled_date = None, u_scheduled_time = None,
      u_due_date = None, u_due_time = None, u_reminder_time = None\<rparr>"


section \<open>Task store (app/services/task_service.py)\<close>

text \<open>
  Exceptions are values. \<open>HTTPException\<close> carries the status code and the detail
  text; the other constructors are the Python exceptions the command layer can meet.
\<close>

datatype error =
    HTTPException nat string
  | AttributeError
  | ValueError
  | ValidationError
  | TypeError
  | OverflowError

text \<open>
  The database is the list of rows of the \<open>tasks\<close> table in row order. A service
  method takes the database and returns its result with the database after it.
  A method that raises has not committed: the database it leaves is the one it found.
\<close>

type_synonym db = "Task list"

text \<open>The key the database gives a new row: one more than the largest key in use.\<close>

definition new_id :: "db \<Rightarrow> nat" where
  "new_id rows = Suc (fold max (map task_id rows) 0)"

definition create_task :: "TaskCreate \<Rightarrow> nat \<Rightarrow> db \<Rightarrow> Task \<times> db" where
  "create_task task uid rows =
     (let db_task =
        \<lparr>task_id = new_id rows,
         title = c_title task,
         description = c_description task,
         state = NOT_STARTED,
         priority = c_priority task,
         category = c_category task,
         scheduled_date = c_scheduled_date task,
         scheduled_time = c_scheduled_time task,
         due_date = c_due_date task,
         due_time = c_due_time task,
         reminder_time = c_reminder_time task,
         user_id = uid\<rparr>
      in (db_task, rows @ [db_task]))"

definition get_task :: "nat \<Rightarrow> nat \<Rightarrow> db \<Rightarrow> Task option" where
  "get_task tid uid rows = find (\<lambda>t. task_id t = tid \<and> user_id t = uid) rows"

definition get_tasks :: "nat \<Rightarrow> TaskState option \<Rightarrow> db \<Rightarrow> Task list" where
  "get_tasks uid state_filter rows =
     (let query = filter (\<lambda>t. user_id t = uid) rows
      in case state_filter of
           None \<Rightarrow> query
         | Some s \<Rightarrow> filter (\<lambda>t. state t = s) query)"

text \<open>
  Lines 96 to 113 of \<open>update_task\<close>: each field present in the request overwrites the
  field of the loaded row object. The state is not among them.
\<close>

definition set_basic_fields :: "TaskUpdate \<Rightarrow> Task \<Rightarrow> Task" where
  "set_basic_fields upd t =
     (let t = (case u_title upd of None \<Rightarrow> t | Some v \<Rightarrow> t\<lparr>title := v\<rparr>);
          t = (case u_description upd of None \<Rightarrow> t | Some v \<Rightarrow> t\<lparr>description := Some v\<rparr>);
          t = (case u_priority upd of None \<Rightarrow> t | Some v \<Rightarrow> t\<lparr>priority := v\<rparr>);
          t = (case u_category upd of None \<Rightarrow> t | Some v \<Rightarrow> t\<lparr>category := Some v\<rparr>);
          t = (case u_scheduled_date upd of None \<Rightarrow> t | Some v \<Rightarrow> t\<lparr>scheduled_date := Some v\<rparr>);
          t = (case u_scheduled_time upd of None \<Rightarrow> t | Some v \<Rightarrow> t\<lparr>scheduled_time := Some v\<rparr>);
          t = (case u_due_date upd of None \<Rightarrow> t | Some v \<Rightarrow> t\<lparr>due_date := Some v\<rparr>);
          t = (case u_due_time upd of None \<Rightarrow> t | Some v \<Rightarrow> t\<lparr>due_time := Some v\<rparr>);
          t = (case u_reminder_time upd of None \<Rightarrow> t | Some v \<Rightarrow> t\<lparr>reminder_time := Some v\<rparr>)
      in t)"

text \<open>Python's rendering of a list of strings inside an f-string: \<open>['a', 'b']\<close>.\<close>

fun join :: "string \<Rightarrow> string list \<Rightarrow> string" where
  "join sep [] = []"
| "join sep [x] = x"
| "join sep (x # y # ys) = x @ sep @ join sep (y # ys)"

definition repr_str_list :: "string list \<Rightarrow> string" where
  "repr_str_list xs = ''['' @ join '', '' (map (\<lambda>x. [CHR 39] @ x @ [CHR 39]) xs) @ '']''"

definition invalid_transition_detail :: "TaskState \<Rightarrow> TaskState \<Rightarrow> string" where
  "invalid_transition_detail cur new =
     ''Invalid state transition from '' @ [CHR 39] @ state_value cur @ [CHR 39] @
     '' to '' @ [CHR 39] @ state_value new @ [CHR 39] @
     ''. Allowed transitions: '' @ repr_str_list (map state_value (get_valid_transitions cur))"

text \<open>The commit of a changed row: the row with its primary key is replaced.\<close>

definition commit_row :: "Task \<Rightarrow> db \<Rightarrow> db" where
  "commit_row t rows = map (\<lambda>r. if task_id r = task_id t then t else r) rows"

definition update_task :: "nat \<Rightarrow> TaskUpdate \<Rightarrow> nat \<Rightarrow> db \<Rightarrow> (error + Task) \<times> db" where
  "update_task tid task_update uid rows =
     (case get_task tid uid rows of
        None \<Rightarrow> (Inl (HTTPException 404 ''Task not found''), rows)
      | Some found \<Rightarrow>
          (let db_task = set_basic_fields task_update found
           in case u_state task_update of
                None \<Rightarrow> (Inr db_task, commit_row db_task rows)
              | Some s \<Rightarrow>
                  if \<not> is_valid_transition (state db_task) s
                  then (Inl (HTTPException 400 (invalid_transition_detail (state db_task) s)), rows)
                  else (let db_task = db_task\<lparr>state := s\<rparr>
                        in (Inr db_task, commit_row db_task rows))))"

definition delete_task :: "nat \<Rightarrow> nat \<Rightarrow> db \<Rightarrow> (error + bool) \<times> db" where
  "delete_task tid uid rows =
     (case get_task tid uid rows of
        None \<Rightarrow> (Inl (HTTPException 404 ''Task not found''), rows)
      | Some db_task \<Rightarrow> (Inr True, filter (\<lambda>r. task_id r \<noteq> task_id db_task) rows))"

text \<open>
  \<open>Task.title.contains(title_pattern)\<close> is evaluated by the SQL backend; the test it
  applies to a title and a pattern is the parameter \<open>contains\<close>.
\<close>

definition search_tasks_by_title ::
  "(string \<Rightarrow> string \<Rightarrow> bool) \<Rightarrow> string \<Rightarrow> nat \<Rightarrow> db \<Rightarrow> Task list" where
  "search_tasks_by_title contains title_pattern uid rows =
     filter (\<lambda>t. user_id t = uid \<and> contains (title t) title_pattern) rows"


text \<open>A row with a title, a state and an owner and nothing else set, for examples.\<close>

definition mk_task :: "nat \<Rightarrow> string \<Rightarrow> TaskState \<Rightarrow> nat \<Rightarrow> Task" where
  "mk_task i ttl s uid =
     \<lparr>task_id = i, title = ttl, description = None, state = s, priority = MEDIUM,
      category = None, scheduled_date = None, scheduled_time = None, due_date = None,
      due_time = None, reminder_time = None, user_id = uid\<rparr>"

text \<open>The linear workflow: Not Started, then In Progress, then Completed.\<close>

definition follows_chain :: "TaskState \<Rightarrow> TaskState \<Rightarrow> bool" where
  "follows_chain a b \<longleftrightarrow>
     (a = NOT_STARTED \<and> b = IN_PROGRESS) \<or> (a = IN_PROGRESS \<and> b = COMPLETED)"


section \<open>Python values and strings\<close>

text \<open>
  Strings are lists of characters, a character being a code point below 256.
  \<open>is_space\<close> is the whitespace of \<open>str.strip\<close> and of the regex class \<open>\s\<close>
  among them, \<open>is_digit\<close> the regex class \<open>\d\<close>, \<open>lower\<close> is \<open>str.lower\<close>,
  \<open>strip\<close> is \<open>str.strip\<close>.
\<close>

definition is_space :: "char \<Rightarrow> bool" where
  "is_space c = (c \<in> set [CHR 0x09, CHR 0x0A, CHR 0x0B, CHR 0x0C, CHR 0x0D,
                            CHR 0x1C, CHR 0x1D, CHR 0x1E, CHR 0x1F, CHR 0x20,
                            CHR 0x85, CHR 0xA0])"

definition is_digit :: "char \<Rightarrow> bool" where
  "is_digit c = (c \<in> set ''0123456789'')"

text \<open>The letters with a lower-case form: \<open>A\<close> to \<open>Z\<close> and the capitals of Latin-1.\<close>

definition upper_letters :: string where
  "upper_letters = ''ABCDEFGHIJKLMNOPQRSTUVWXYZ'' @
       [CHR 0xC0, CHR 0xC1, CHR 0xC2, CHR 0xC3, CHR 0xC4, CHR 0xC5, CHR 0xC6, CHR 0xC7,
        CHR 0xC8, CHR 0xC9, CHR 0xCA, CHR 0xCB, CHR 0xCC, CHR 0xCD, CHR 0xCE, CHR 0xCF,
        CHR 0xD0, CHR 0xD1, CHR 0xD2, CHR 0xD3, CHR 0xD4, CHR 0xD5, CHR 0xD6, CHR 0xD8,
        CHR 0xD9, CHR 0xDA, CHR 0xDB, CHR 0xDC, CHR 0xDD, CHR 0xDE]"

definition lower_letters :: string where
  "lower_letters = ''abcdefghijklmnopqrstuvwxyz'' @
       [CHR 0xE0, CHR 0xE1, CHR 0xE2, CHR 0xE3, CHR 0xE4, CHR 0xE5, CHR 0xE6, CHR 0xE7,
        CHR 0xE8, CHR 0xE9, CHR 0xEA, CHR 0xEB, CHR 0xEC, CHR 0xED, CHR 0xEE, CHR 0xEF,
        CHR 0xF0, CHR 0xF1, CHR 0xF2, CHR 0xF3, CHR 0xF4, CHR 0xF5, CHR 0xF6, CHR 0xF8,
        CHR 0xF9, CHR 0xFA, CHR 0xFB, CHR 0xFC, CHR 0xFD, CHR 0xFE]"

definition lower_char :: "char \<Rightarrow> char" where
  "lower_char c =
     (case map_of (zip upper_letters lower_letters) c of
        None \<Rightarrow> c
      | Some l \<Rightarrow> l)"

definition lower :: "string \<Rightarrow> string" where
  "lower s = map lower_char s"

definition strip :: "string \<Rightarrow> string" where
  "strip s = rev (dropWhile is_space (rev (dropWhile is_space s)))"

text \<open>\<open>sub in s\<close> on strings: \<open>sub\<close> occurs in \<open>s\<close> at some offset.\<close>

definition is_in :: "string \<Rightarrow> string \<Rightarrow> bool" where
  "is_in sub s = list_ex (\<lambda>i. take (length sub) (drop i s) = sub) [0..<Suc (length s)]"

text \<open>Decimal text of a number, as \<open>str\<close> gives it.\<close>

definition digit_char :: "nat \<Rightarrow> char" where
  "digit_char n = ''0123456789'' ! n"

fun str_nat :: "nat \<Rightarrow> string" where
  "str_nat n = (if n < 10 then [digit_char n] else str_nat (n div 10) @ [digit_char (n mod 10)])"

definition str_int :: "int \<Rightarrow> string" where
  "str_int i = (if i < 0 then CHR ''-'' # str_nat (nat (- i)) else str_nat (nat i))"

text \<open>
  The values a descriptor can hold, as \<open>json.loads\<close> or the pattern interpreter
  produce them. \<open>POther text truth\<close> stands for a value of any further type (a float, a
  list, an object), given by its \<open>str()\<close> text and its truth value: the command layer
  looks at nothing else of such a value.
\<close>

datatype pyval = PNone | PBool bool | PInt int | PStr string | POther string bool

fun truthy :: "pyval \<Rightarrow> bool" where
  "truthy PNone = False"
| "truthy (PBool b) = b"
| "truthy (PInt i) = (i \<noteq> 0)"
| "truthy (PStr s) = (s \<noteq> [])"
| "truthy (POther s t) = t"

fun py_str :: "pyval \<Rightarrow> string" where
  "py_str PNone = ''None''"
| "py_str (PBool b) = (if b then ''True'' else ''False'')"
| "py_str (PInt i) = str_int i"
| "py_str (PStr s) = s"
| "py_str (POther s t) = s"

text \<open>
  The action descriptor is a dictionary from key names to values. \<open>d k = None\<close> says
  the key is absent; a key holding Python's \<open>None\<close> is \<open>Some PNone\<close>.
\<close>

type_synonym descriptor = "string \<rightharpoonup> pyval"

text \<open>\<open>d.get(k)\<close>, \<open>d.get(k, "")\<close> and the test \<open>k in d and d[k]\<close>.\<close>

definition get :: "descriptor \<Rightarrow> string \<Rightarrow> pyval" where
  "get d k = (case d k of None \<Rightarrow> PNone | Some v \<Rightarrow> v)"

definition get_or :: "descriptor \<Rightarrow> string \<Rightarrow> pyval \<Rightarrow> pyval" where
  "get_or d k dflt = (case d k of None \<Rightarrow> dflt | Some v \<Rightarrow> v)"

definition has :: "descriptor \<Rightarrow> string \<Rightarrow> bool" where
  "has d k = (case d k of None \<Rightarrow> False | Some v \<Rightarrow> truthy v)"

text \<open>Sequencing of steps that may raise: the first exception ends the computation.\<close>

definition then_do :: "error + 'a \<Rightarrow> ('a \<Rightarrow> error + 'b) \<Rightarrow> error + 'b" where
  "then_do r f = (case r of Inl e \<Rightarrow> Inl e | Inr x \<Rightarrow> f x)"

text \<open>\<open>v.strip()\<close> on a descriptor value: only a string has the method.\<close>

fun strip_value :: "pyval \<Rightarrow> error + string" where
  "strip_value (PStr s) = Inr (strip s)"
| "strip_value v = Inl AttributeError"


section \<open>Dates (the \<open>datetime\<close> calls the command layer makes)\<close>

text \<open>
  A \<open>date\<close> object is a calendar day of the years 1 to 9999. Adding a \<open>timedelta\<close>
  of days steps through the calendar and raises \<open>OverflowError\<close> when it leaves that
  range: \<open>None\<close> below.
\<close>

definition is_leap :: "nat \<Rightarrow> bool" where
  "is_leap y = (y mod 4 = 0 \<and> (y mod 100 \<noteq> 0 \<or> y mod 400 = 0))"

definition days_in_month :: "nat \<Rightarrow> nat \<Rightarrow> nat" where
  "days_in_month y m =
     (if m = 2 then (if is_leap y then 29 else 28)
      else if m = 4 \<or> m = 6 \<or> m = 9 \<or> m = 11 then 30
      else 31)"

fun valid_date :: "date \<Rightarrow> bool" where
  "valid_date (y, m, d) =
     (1 \<le> y \<and> y \<le> 9999 \<and> 1 \<le> m \<and> m \<le> 12 \<and> 1 \<le> d \<and> d \<le> days_in_month y m)"

fun next_day :: "date \<Rightarrow> date option" where
  "next_day (y, m, d) =
     (if d < days_in_month y m then Some (y, m, d + 1)
      else if m < 12 then Some (y, m + 1, 1)
      else if y < 9999 then Some (y + 1, 1, 1)
      else None)"

fun prev_day :: "date \<Rightarrow> date option" where
  "prev_day (y, m, d) =
     (if 1 < d then Some (y, m, d - 1)
      else if 1 < m then Some (y, m - 1, days_in_month y (m - 1))
      else if 1 < y then Some (y - 1, 12, 31)
      else None)"

text \<open>\<open>today + timedelta(days=n)\<close>.\<close>

fun add_days :: "date \<Rightarrow> nat \<Rightarrow> date option" where
  "add_days dt 0 = Some dt"
| "add_days dt (Suc n) = (case next_day dt of None \<Rightarrow> None | Some dt' \<Rightarrow> add_days dt' n)"

text \<open>\<open>str(d)\<close> of a date: year, month and day zero-padded to 4, 2 and 2 digits.\<close>

definition pad :: "nat \<Rightarrow> nat \<Rightarrow> string" where
  "pad width n = replicate (width - length (str_nat n)) (CHR ''0'') @ str_nat n"

fun isoformat :: "date \<Rightarrow> string" where
  "isoformat (y, m, d) = pad 4 y @ ''-'' @ pad 2 m @ ''-'' @ pad 2 d"

text \<open>The number a string of decimal digits denotes (\<open>int(s)\<close> on such a string).\<close>

definition digit_val :: "char \<Rightarrow> nat" where
  "digit_val c = (case map_of (zip ''0123456789'' [0..<10]) c of None \<Rightarrow> 0 | Some n \<Rightarrow> n)"

definition int_of_digits :: "string \<Rightarrow> nat" where
  "int_of_digits s = foldl (\<lambda>acc c. 10 * acc + digit_val c) 0 s"

text \<open>
  \<open>datetime.strptime(s, "%Y-%m-%d")\<close>. The library matches \<open>s\<close> from its start
  against four digits for the year, then \<open>1[0-2]|0[1-9]|[1-9]\<close> for the month and
  \<open>3[01]|[12]\d|0[1-9]|[1-9]| [1-9]\<close> for the day, with \<open>-\<close> between them; the
  alternatives are tried in this order. It fails when nothing matches, when text is
  left after the match, and when the numbers are not a date. The result is the date,
  \<open>None\<close> stands for \<open>ValueError\<close>.
\<close>

definition month_alternatives :: "string \<Rightarrow> (nat \<times> string) list" where
  "month_alternatives r =
     (case r of a # b # r' \<Rightarrow>
        if a = CHR ''1'' \<and> b \<in> set ''012'' then [(10 + digit_val b, r')] else []
      | _ \<Rightarrow> []) @
     (case r of a # b # r' \<Rightarrow>
        if a = CHR ''0'' \<and> b \<in> set ''123456789'' then [(digit_val b, r')] else []
      | _ \<Rightarrow> []) @
     (case r of a # r' \<Rightarrow>
        if a \<in> set ''123456789'' then [(digit_val a, r')] else []
      | _ \<Rightarrow> [])"

definition day_alternatives :: "string \<Rightarrow> (nat \<times> string) list" where
  "day_alternatives r =
     (case r of a # b # r' \<Rightarrow>
        if a = CHR ''3'' \<and> b \<in> set ''01'' then [(30 + digit_val b, r')] else []
      | _ \<Rightarrow> []) @
     (case r of a # b # r' \<Rightarrow>
        if a \<in> set ''12'' \<and> is_digit b then [(10 * digit_val a + digit_val b, r')] else []
      | _ \<Rightarrow> []) @
     (case r of a # b # r' \<Rightarrow>
        if a = CHR ''0'' \<and> b \<in> set ''123456789'' then [(digit_val b, r')] else []
      | _ \<Rightarrow> []) @
     (case r of a # r' \<Rightarrow>
        if a \<in> set ''123456789'' then [(digit_val a, r')] else []
      | _ \<Rightarrow> []) @
     (case r of a # b # r' \<Rightarrow>
        if a = CHR '' '' \<and> b \<in> set ''123456789'' then [(digit_val b, r')] else []
      | _ \<Rightarrow> [])"

text \<open>The ways month, \<open>-\<close> and day match, as month, day and the text left, in order.\<close>

definition month_day_matches :: "string \<Rightarrow> (nat \<times> nat \<times> string) list" where
  "month_day_matches r0 =
     concat (map (\<lambda>(m, r1).
                    case r1 of
                      c # r2 \<Rightarrow> if c = CHR ''-''
                                then map (\<lambda>(d, r3). (m, d, r3)) (day_alternatives r2) else []
                    | [] \<Rightarrow> [])
                 (month_alternatives r0))"

definition strptime_ymd :: "string \<Rightarrow> date option" where
  "strptime_ymd s =
     (case s of
        y1 # y2 # y3 # y4 # c # r0 \<Rightarrow>
          if is_digit y1 \<and> is_digit y2 \<and> is_digit y3 \<and> is_digit y4 \<and> c = CHR ''-''
          then
            (case month_day_matches r0 of
               [] \<Rightarrow> None
             | (m, d, r3) # _ \<Rightarrow>
                 if r3 = [] \<and> valid_date (int_of_digits [y1, y2, y3, y4], m, d)
                 then Some (int_of_digits [y1, y2, y3, y4], m, d)
                 else None)
          else None
      | _ \<Rightarrow> None)"


section \<open>Regular expressions (the \<open>re\<close> calls the command layer makes)\<close>

text \<open>
  The patterns of the source use literals, character classes repeated a number of
  times (greedy or lazy), sequence, alternation, groups, the anchors \<open>^\<close> and \<open>$\<close>
  and the word boundary \<open>\b\<close>. \<open>Rep k lo hi greedy\<close> repeats class \<open>k\<close> between
  \<open>lo\<close> and \<open>hi\<close> times (\<open>None\<close>: no upper bound); \<open>r?\<close> is \<open>Alt r Empty\<close>.
\<close>

datatype cclass = Digit | Space | Any_char | One_of string

fun in_class :: "cclass \<Rightarrow> char \<Rightarrow> bool" where
  "in_class Digit c = is_digit c"
| "in_class Space c = is_space c"
| "in_class Any_char c = (c \<noteq> CHR 0x0A)"
| "in_class (One_of cs) c = (c \<in> set cs)"

text \<open>The word characters of \<open>\b\<close>: letters, digits and numerals, and the underscore.\<close>

definition is_word :: "char \<Rightarrow> bool" where
  "is_word c =
     (c \<in> set (''abcdefghijklmnopqrstuvwxyzABCDEFGHIJKLMNOPQRSTUVWXYZ0123456789_'' @
       [CHR 0xAA, CHR 0xB2, CHR 0xB3, CHR 0xB5, CHR 0xB9, CHR 0xBA, CHR 0xBC, CHR 0xBD,
        CHR 0xBE, CHR 0xC0, CHR 0xC1, CHR 0xC2, CHR 0xC3, CHR 0xC4, CHR 0xC5, CHR 0xC6,
        CHR 0xC7, CHR 0xC8, CHR 0xC9, CHR 0xCA, CHR 0xCB, CHR 0xCC, CHR 0xCD, CHR 0xCE,
        CHR 0xCF, CHR 0xD0, CHR 0xD1, CHR 0xD2, CHR 0xD3, CHR 0xD4, CHR 0xD5, CHR 0xD6,
        CHR 0xD8, CHR 0xD9, CHR 0xDA, CHR 0xDB, CHR 0xDC, CHR 0xDD, CHR 0xDE, CHR 0xDF,
        CHR 0xE0, CHR 0xE1, CHR 0xE2, CHR 0xE3, CHR 0xE4, CHR 0xE5, CHR 0xE6, CHR 0xE7,
        CHR 0xE8, CHR 0xE9, CHR 0xEA, CHR 0xEB, CHR 0xEC, CHR 0xED, CHR 0xEE, CHR 0xEF,
        CHR 0xF0, CHR 0xF1, CHR 0xF2, CHR 0xF3, CHR 0xF4, CHR 0xF5, CHR 0xF6, CHR 0xF8,
        CHR 0xF9, CHR 0xFA, CHR 0xFB, CHR 0xFC, CHR 0xFD, CHR 0xFE, CHR 0xFF]))"

datatype regex =
    Lit string
  | Rep cclass nat "nat option" bool
  | Seq regex regex
  | Alt regex regex
  | Group nat regex
  | Bol
  | Eol
  | Word_boundary
  | Empty

text \<open>The span of each group that took part in a match.\<close>

type_synonym groups = "nat \<rightharpoonup> nat \<times> nat"

text \<open>
  \<open>matches s r (i, g)\<close> lists the ways \<open>r\<close> can match in \<open>s\<close> from position \<open>i\<close>,
  each as the position after the match and the groups set so far, in the order in which
  the backtracking matcher of \<open>re\<close> tries them: the head of the list is the match it
  reports.
\<close>

fun matches :: "string \<Rightarrow> regex \<Rightarrow> nat \<times> groups \<Rightarrow> (nat \<times> groups) list" where
  "matches s (Lit w) (i, g) =
     (if take (length w) (drop i s) = w then [(i + length w, g)] else [])"
| "matches s (Rep k lo hi greedy) (i, g) =
     (let available = length (takeWhile (in_class k) (drop i s));
          upper = (case hi of None \<Rightarrow> available | Some h \<Rightarrow> min h available);
          counts = [lo..<Suc upper]
      in map (\<lambda>n. (i + n, g)) (if greedy then rev counts else counts))"
| "matches s (Seq a b) (i, g) = concat (map (matches s b) (matches s a (i, g)))"
| "matches s (Alt a b) (i, g) = matches s a (i, g) @ matches s b (i, g)"
| "matches s (Group n r) (i, g) = map (\<lambda>(j, g'). (j, g'(n \<mapsto> (i, j)))) (matches s r (i, g))"
| "matches s Bol (i, g) = (if i = 0 then [(i, g)] else [])"
| "matches s Eol (i, g) =
     (if i = length s \<or> (Suc i = length s \<and> s ! i = CHR 0x0A) then [(i, g)] else [])"
| "matches s Word_boundary (i, g) =
     (if (0 < i \<and> is_word (s ! (i - 1))) \<noteq> (i < length s \<and> is_word (s ! i))
      then [(i, g)] else [])"
| "matches s Empty (i, g) = [(i, g)]"

text \<open>A match: where it starts, where it ends, and its groups.\<close>

type_synonym match = "nat \<times> nat \<times> groups"

definition match_at :: "regex \<Rightarrow> string \<Rightarrow> nat \<Rightarrow> match option" where
  "match_at r s i = (case matches s r (i, Map.empty) of [] \<Rightarrow> None | (j, g) # _ \<Rightarrow> Some (i, j, g))"

fun first_some :: "('a \<Rightarrow> 'b option) \<Rightarrow> 'a list \<Rightarrow> 'b option" where
  "first_some f [] = None"
| "first_some f (x # xs) = (case f x of None \<Rightarrow> first_some f xs | Some y \<Rightarrow> Some y)"

text \<open>\<open>re.match\<close> tries the start of the string; \<open>re.search\<close> the leftmost start that matches.\<close>

definition re_match :: "regex \<Rightarrow> string \<Rightarrow> match option" where
  "re_match r s = match_at r s 0"

definition re_search :: "regex \<Rightarrow> string \<Rightarrow> match option" where
  "re_search r s = first_some (match_at r s) [0..<Suc (length s)]"

text \<open>\<open>m.group(n)\<close>: the text of group \<open>n\<close>, \<open>None\<close> when the group took no part.\<close>

definition group :: "string \<Rightarrow> match \<Rightarrow> nat \<Rightarrow> string option" where
  "group s m n =
     (case snd (snd m) n of None \<Rightarrow> None | Some (a, b) \<Rightarrow> Some (take (b - a) (drop a s)))"

text \<open>
  \<open>re.sub(r, '', s)\<close>: the text of \<open>s\<close> without the matches of \<open>r\<close>, found from left
  to right. A match of no characters removes nothing.
\<close>

function remove_from :: "regex \<Rightarrow> string \<Rightarrow> nat \<Rightarrow> string" where
  "remove_from r s i =
     (if length s \<le> i then []
      else case match_at r s i of
             None \<Rightarrow> s ! i # remove_from r s (Suc i)
           | Some (a, j, g) \<Rightarrow>
               if i < j then remove_from r s j else s ! i # remove_from r s (Suc i))"
  by pat_completeness auto
termination
  by (relation "measure (\<lambda>(r, s, i). length s - i)") auto

definition re_sub_empty :: "regex \<Rightarrow> string \<Rightarrow> string" where
  "re_sub_empty r s = remove_from r s 0"


section \<open>Command dispatcher (AIService._execute_action)\<close>

text \<open>
  What the dispatcher needs from outside this repository: the title test of the SQL
  backend, Python's \<open>int()\<close> on a descriptor value, and the conversion the request
  schema applies to a date and to a time field (\<open>None\<close>: the value is rejected).
\<close>

record library =
  title_contains :: "string \<Rightarrow> string \<Rightarrow> bool"
  int_of :: "pyval \<Rightarrow> error + int"
  date_of :: "pyval \<Rightarrow> date option"
  time_of :: "pyval \<Rightarrow> time option"

text \<open>
  The message of a response. The three canned chat replies and the confirmation of a
  created task contain symbols outside ASCII and are kept as constructors:
  \<open>Created_text t\<close> is the text lines 565 to 581 build from the created task \<open>t\<close>;
  \<open>Failed_to_create e\<close>, \<open>Error_text e\<close> and \<open>Could_not_process e\<close> are the three
  texts that embed \<open>str(e)\<close> of a caught exception.
\<close>

datatype message =
    Text string
  | Greeting_text
  | Help_text
  | Assistant_text
  | Created_text Task
  | Failed_to_create error
  | Error_text error
  | Could_not_process error

record AICommandResponse =
  success :: bool
  message :: message
  action :: "string option"
  r_task_id :: "nat option"
  tasks :: "Task list option"

definition failure :: "message \<Rightarrow> AICommandResponse" where
  "failure m = \<lparr>success = False, message = m, action = None, r_task_id = None, tasks = None\<rparr>"

definition chat_reply :: "message \<Rightarrow> AICommandResponse" where
  "chat_reply m = \<lparr>success = True, message = m, action = None, r_task_id = None, tasks = None\<rparr>"

text \<open>\<open>TaskState(v)\<close> and the schema's reading of a priority: by the member's value.\<close>

fun TaskState_of :: "pyval \<Rightarrow> TaskState option" where
  "TaskState_of (PStr s) =
     (if s = ''Not Started'' then Some NOT_STARTED
      else if s = ''In Progress'' then Some IN_PROGRESS
      else if s = ''Completed'' then Some COMPLETED
      else None)"
| "TaskState_of v = None"

fun TaskPriority_of :: "pyval \<Rightarrow> TaskPriority option" where
  "TaskPriority_of (PStr s) =
     (if s = ''LOW'' then Some LOW
      else if s = ''MEDIUM'' then Some MEDIUM
      else if s = ''HIGH'' then Some HIGH
      else if s = ''URGENT'' then Some URGENT
      else None)"
| "TaskPriority_of v = None"

text \<open>
  \<open>TaskCreate(**task_create_data)\<close>: the title and the description are strings
  already, the reminder is an integer already; the other fields are validated against
  their declared types. A field that is not in the data takes its default.
\<close>

definition validate_opt :: "('a \<Rightarrow> 'b option) \<Rightarrow> 'a option \<Rightarrow> error + 'b option" where
  "validate_opt conv field =
     (case field of
        None \<Rightarrow> Inr None
      | Some v \<Rightarrow> (case conv v of None \<Rightarrow> Inl ValidationError | Some x \<Rightarrow> Inr (Some x)))"

fun str_field :: "pyval \<Rightarrow> string option" where
  "str_field (PStr s) = Some s"
| "str_field v = None"

definition make_TaskCreate ::
  "library \<Rightarrow> string \<Rightarrow> string option \<Rightarrow> pyval option \<Rightarrow> pyval option \<Rightarrow> pyval option \<Rightarrow>
   pyval option \<Rightarrow> pyval option \<Rightarrow> pyval option \<Rightarrow> int option \<Rightarrow> error + TaskCreate" where
  "make_TaskCreate lib ttl descr prio cat sd st dd dt rem =
     then_do (validate_opt TaskPriority_of prio) (\<lambda>prio.
     then_do (validate_opt str_field cat) (\<lambda>cat.
     then_do (validate_opt (date_of lib) sd) (\<lambda>sd.
     then_do (validate_opt (time_of lib) st) (\<lambda>st.
     then_do (validate_opt (date_of lib) dd) (\<lambda>dd.
     then_do (validate_opt (time_of lib) dt) (\<lambda>dt.
       Inr \<lparr>c_title = ttl, c_description = descr,
            c_priority = (case prio of None \<Rightarrow> MEDIUM | Some p \<Rightarrow> p),
            c_category = cat, c_scheduled_date = sd, c_scheduled_time = st,
            c_due_date = dd, c_due_time = dt, c_reminder_time = rem\<rparr>))))))"

text \<open>The entry of \<open>task_create_data\<close> for a key: present when the key holds a truthy value.\<close>

definition data_field :: "descriptor \<Rightarrow> string \<Rightarrow> pyval option" where
  "data_field d k = (if has d k then d k else None)"

text \<open>The \<open>chat\<close> branch.\<close>

definition execute_chat :: "descriptor \<Rightarrow> AICommandResponse" where
  "execute_chat d =
     (let message_type = get_or d ''message'' (PStr ''general'')
      in if message_type = PStr ''greeting'' then chat_reply Greeting_text
         else if message_type = PStr ''help'' then chat_reply Help_text
         else chat_reply Assistant_text)"

text \<open>
  The inner \<open>try\<close> of the \<open>create\<close> branch (lines 557 to 597): the request is
  built and validated, the task is created and the confirmation is returned; a failure
  gives the "Failed to create task" response.
\<close>

definition try_create :: "error + TaskCreate \<Rightarrow> nat \<Rightarrow> db \<Rightarrow> AICommandResponse \<times> db" where
  "try_create request uid rows =
     (case request of
        Inl e \<Rightarrow> (failure (Failed_to_create e), rows)
      | Inr task_create \<Rightarrow>
          (let (task, rows') = create_task task_create uid rows
           in (\<lparr>success = True, message = Created_text task,
                action = Some ''create'', r_task_id = Some (task_id task),
                tasks = None\<rparr>, rows')))"

text \<open>
  The \<open>create\<close> branch. The steps before the inner \<open>try\<close> raise to the handler of
  \<open>execute_action\<close>.
\<close>

definition execute_create ::
  "library \<Rightarrow> descriptor \<Rightarrow> nat \<Rightarrow> db \<Rightarrow> error + AICommandResponse \<times> db" where
  "execute_create lib d uid rows =
     then_do (strip_value (get_or d ''task_title'' (PStr ''''))) (\<lambda>task_title.
       if task_title = [] then Inr (failure (Text ''Please provide a task title.''), rows)
       else
         then_do (if has d ''description''
                  then then_do (strip_value (get d ''description'')) (\<lambda>s. Inr (Some s))
                  else Inr None) (\<lambda>descr.
         then_do (if has d ''reminder_time''
                  then then_do (int_of lib (get d ''reminder_time'')) (\<lambda>i. Inr (Some i))
                  else Inr None) (\<lambda>rem.
           Inr (try_create
                  (make_TaskCreate lib task_title descr
                     (data_field d ''priority'') (data_field d ''category'')
                     (data_field d ''scheduled_date'') (data_field d ''scheduled_time'')
                     (data_field d ''due_date'') (data_field d ''due_time'') rem)
                  uid rows))))"

text \<open>The text listing several matches, shared by \<open>update_state\<close> and \<open>delete\<close>.\<close>

definition multiple_found :: "Task list \<Rightarrow> message" where
  "multiple_found matching_tasks =
     Text (''Multiple tasks found: '' @ join '', '' (map title matching_tasks) @
           ''. Please be more specific.'')"

definition no_tasks_matching :: "string \<Rightarrow> message" where
  "no_tasks_matching task_title =
     Text (''No tasks found matching '' @ [CHR 39] @ task_title @ [CHR 39])"

text \<open>The \<open>update_state\<close> branch.\<close>

definition execute_update_state ::
  "library \<Rightarrow> descriptor \<Rightarrow> nat \<Rightarrow> db \<Rightarrow> error + AICommandResponse \<times> db" where
  "execute_update_state lib d uid rows =
     then_do (strip_value (get_or d ''task_title'' (PStr ''''))) (\<lambda>task_title.
       let new_state = get d ''new_state'' in
       if task_title = [] then Inr (failure (Text ''Please specify which task to update.''), rows)
       else
         (let matching_tasks = search_tasks_by_title (title_contains lib) task_title uid rows
          in case matching_tasks of
               [] \<Rightarrow> Inr (failure (no_tasks_matching task_title), rows)
             | task # others \<Rightarrow>
                 if others \<noteq> [] then Inr (failure (multiple_found matching_tasks), rows)
                 else
                   (case TaskState_of new_state of
                      None \<Rightarrow> Inr (failure (Text (''Invalid state: '' @ py_str new_state)), rows)
                    | Some new_state_enum \<Rightarrow>
                        (case update_task (task_id task) (TaskUpdate_of_state new_state_enum) uid rows of
                           (Inl e, rows') \<Rightarrow> Inl e
                         | (Inr updated_task, rows') \<Rightarrow>
                             Inr (\<lparr>success = True,
                                   message = Text (''Updated '' @ [CHR 39] @ title task @ [CHR 39] @
                                                   '' to '' @ [CHR 39] @ py_str new_state @ [CHR 39]),
                                   action = Some ''update_state'',
                                   r_task_id = Some (task_id updated_task),
                                   tasks = None\<rparr>, rows')))))"

text \<open>The \<open>list\<close> branch: \<open>state_filter\<close> is the only key it reads.\<close>

definition execute_list :: "descriptor \<Rightarrow> nat \<Rightarrow> db \<Rightarrow> AICommandResponse" where
  "execute_list d uid rows =
     (let state_filter = get d ''state_filter'';
          filter_msg = (if truthy state_filter
                        then '' in state '' @ [CHR 39] @ py_str state_filter @ [CHR 39] else '''')
      in if truthy state_filter \<and> TaskState_of state_filter = None
         then failure (Text (''Invalid state filter: '' @ py_str state_filter))
         else
           (let state_enum = (if truthy state_filter then TaskState_of state_filter else None);
                found = get_tasks uid state_enum rows
            in if found = []
               then \<lparr>success = True, message = Text (''No tasks found'' @ filter_msg),
                     action = Some ''list'', r_task_id = None, tasks = Some []\<rparr>
               else \<lparr>success = True,
                     message = Text (''Found '' @ str_nat (length found) @ '' task(s)'' @ filter_msg),
                     action = Some ''list'', r_task_id = None, tasks = Some found\<rparr>))"

text \<open>The \<open>delete\<close> branch.\<close>

definition execute_delete ::
  "library \<Rightarrow> descriptor \<Rightarrow> nat \<Rightarrow> db \<Rightarrow> error + AICommandResponse \<times> db" where
  "execute_delete lib d uid rows =
     then_do (strip_value (get_or d ''task_title'' (PStr ''''))) (\<lambda>task_title.
       if task_title = [] then Inr (failure (Text ''Please specify which task to delete.''), rows)
       else
         (let matching_tasks = search_tasks_by_title (title_contains lib) task_title uid rows
          in case matching_tasks of
               [] \<Rightarrow> Inr (failure (no_tasks_matching task_title), rows)
             | task # others \<Rightarrow>
                 if others \<noteq> [] then Inr (failure (multiple_found matching_tasks), rows)
                 else
                   (case delete_task (task_id task) uid rows of
                      (Inl e, rows') \<Rightarrow> Inl e
                    | (Inr ok, rows') \<Rightarrow>
                        Inr (\<lparr>success = True,
                              message = Text (''Deleted task: '' @ [CHR 39] @ title task @ [CHR 39]),
                              action = Some ''delete'',
                              r_task_id = Some (task_id task),
                              tasks = None\<rparr>, rows'))))"

definition could_not_understand :: message where
  "could_not_understand =
     Text (''I couldn't understand what you want to do. Try commands like 'create task', '' @
           '''start task', 'complete task', or 'show tasks'.'')"

text \<open>
  \<open>_execute_action\<close>: the branch is chosen by the \<open>action\<close> key; an exception of a
  branch is caught by the outer handler, which answers with the error text. No branch
  has committed anything when it raises, so the database is then unchanged.
\<close>

definition execute_action ::
  "library \<Rightarrow> descriptor \<Rightarrow> nat \<Rightarrow> db \<Rightarrow> AICommandResponse \<times> db" where
  "execute_action lib d uid rows =
     (let act = get d ''action'';
          outcome =
            (if act = PStr ''chat'' then Inr (execute_chat d, rows)
             else if act = PStr ''create'' then execute_create lib d uid rows
             else if act = PStr ''update_state'' then execute_update_state lib d uid rows
             else if act = PStr ''list'' then Inr (execute_list d uid rows, rows)
             else if act = PStr ''delete'' then execute_delete lib d uid rows
             else Inr (failure could_not_understand, rows))
      in case outcome of
           Inl e \<Rightarrow> (failure (Error_text e), rows)
         | Inr result \<Rightarrow> result)"

text \<open>
  A library for examples: titles are matched by case-sensitive containment, \<open>int()\<close>
  takes integers only, and no date or time text is accepted.
\<close>

definition plain_library :: library where
  "plain_library =
     \<lparr>title_contains = (\<lambda>ttl p. is_in p ttl),
      int_of = (\<lambda>v. case v of PInt i \<Rightarrow> Inr i | _ \<Rightarrow> Inl TypeError),
      date_of = (\<lambda>v. None),
      time_of = (\<lambda>v. None)\<rparr>"


section \<open>Normalizer (AIService._normalize_parsed_command)\<close>

text \<open>
  The current date \<open>today\<close> is read from the clock; it is an argument here, one value
  for the whole request.
\<close>

definition priority_map :: "(string \<times> string) list" where
  "priority_map =
     [(''low'', ''LOW''), (''medium'', ''MEDIUM''), (''high'', ''HIGH''), (''urgent'', ''URGENT'')]"

text \<open>The entry of \<open>priority\<close> after lines 181 to 190, from the entry before.\<close>

definition normalize_priority :: "pyval option \<Rightarrow> pyval option" where
  "normalize_priority entry =
     (case entry of
        None \<Rightarrow> None
      | Some v \<Rightarrow>
          if truthy v
          then (case map_of priority_map (lower (py_str v)) of
                  Some p \<Rightarrow> Some (PStr p)
                | None \<Rightarrow> Some v)
          else Some v)"

text \<open>The pattern \<open>[\[\]]\<close>.\<close>

definition brackets :: regex where
  "brackets = Rep (One_of ''[]'') 1 (Some 1) True"

definition normalize_date_field :: "date \<Rightarrow> pyval \<Rightarrow> error + string option" where
  "normalize_date_field today date_value =
     (if \<not> truthy date_value then Inr None
      else
        (let date_str = strip (lower (py_str date_value));
             date_str = re_sub_empty brackets date_str
         in if date_str \<in> set [''yyyy-mm-dd'', ''yyyy/mm/dd'', ''[yyyy-mm-dd]''] then Inr None
            else if date_str \<in> set [''today'', ''[today]''] then Inr (Some (isoformat today))
            else if date_str \<in> set [''tomorrow'', ''[tomorrow]'']
            then (case add_days today 1 of
                    None \<Rightarrow> Inl OverflowError | Some dt \<Rightarrow> Inr (Some (isoformat dt)))
            else if date_str \<in> set [''yesterday'', ''[yesterday]'']
            then (case prev_day today of
                    None \<Rightarrow> Inl OverflowError | Some dt \<Rightarrow> Inr (Some (isoformat dt)))
            else if is_in ''next week'' date_str
            then (case add_days today 7 of
                    None \<Rightarrow> Inl OverflowError | Some dt \<Rightarrow> Inr (Some (isoformat dt)))
            else if is_in ''next month'' date_str
            then (case add_days today 30 of
                    None \<Rightarrow> Inl OverflowError | Some dt \<Rightarrow> Inr (Some (isoformat dt)))
            else (case strptime_ymd date_str of
                    Some dt \<Rightarrow> Inr (Some date_str)
                  | None \<Rightarrow> Inr None)))"

text \<open>
  The handling of one date or time key (lines 231 to 237 and their four copies): from
  the entry before and the normalized text, the entry after. A text that is missing or
  empty removes the key.
\<close>

definition keep_or_pop :: "string option \<Rightarrow> pyval option" where
  "keep_or_pop normalized =
     (case normalized of None \<Rightarrow> None | Some s \<Rightarrow> if s \<noteq> [] then Some (PStr s) else None)"

definition normalize_date_entry :: "date \<Rightarrow> pyval option \<Rightarrow> error + pyval option" where
  "normalize_date_entry today entry =
     (case entry of
        None \<Rightarrow> Inr None
      | Some v \<Rightarrow> then_do (normalize_date_field today v) (\<lambda>normalized. Inr (keep_or_pop normalized)))"

definition time_mappings :: "(string \<times> string) list" where
  "time_mappings =
     [(''morning'', ''09:00''), (''afternoon'', ''14:00''), (''evening'', ''18:00''),
      (''night'', ''20:00''), (''noon'', ''12:00''), (''midnight'', ''00:00'')]"

text \<open>The pattern \<open>^\d{1,2}:\d{2}$\<close>.\<close>

definition time_regex :: regex where
  "time_regex =
     Seq Bol (Seq (Rep Digit 1 (Some 2) True) (Seq (Lit '':'') (Seq (Rep Digit 2 (Some 2) True) Eol)))"

definition normalize_time_field :: "pyval \<Rightarrow> string option" where
  "normalize_time_field time_value =
     (if \<not> truthy time_value then None
      else
        (let time_str = strip (lower (py_str time_value))
         in if time_str \<in> set [''hh:mm'', ''hh:mm:ss'', ''[hh:mm]''] then None
            else case map_of time_mappings time_str of
                   Some t \<Rightarrow> Some t
                 | None \<Rightarrow> if re_match time_regex time_str \<noteq> None then Some time_str else None))"

definition normalize_time_entry :: "pyval option \<Rightarrow> pyval option" where
  "normalize_time_entry entry =
     (case entry of None \<Rightarrow> None | Some v \<Rightarrow> keep_or_pop (normalize_time_field v))"

text \<open>
  \<open>_normalize_parsed_command\<close>: the six keys are handled one after the other, each
  from its own entry. The dictionary is changed in place and returned.
\<close>

definition normalize_parsed_command :: "date \<Rightarrow> descriptor \<Rightarrow> error + descriptor" where
  "normalize_parsed_command today d =
     (let d = d(''priority'' := normalize_priority (d ''priority''))
      in then_do (normalize_date_entry today (d ''scheduled_date'')) (\<lambda>e.
         let d = d(''scheduled_date'' := e)
         in then_do (normalize_date_entry today (d ''due_date'')) (\<lambda>e.
            let d = d(''due_date'' := e)
            in then_do (normalize_date_entry today (d ''date_filter'')) (\<lambda>e.
               let d = d(''date_filter'' := e);
                   d = d(''scheduled_time'' := normalize_time_entry (d ''scheduled_time''));
                   d = d(''due_time'' := normalize_time_entry (d ''due_time''))
               in Inr d))))"

text \<open>
  The shapes the specification names: an ISO date \<open>YYYY-MM-DD\<close>, and a time of one or
  two digits, a colon and two digits.
\<close>

definition iso_shape :: "string \<Rightarrow> bool" where
  "iso_shape s =
     (case s of
        [y1, y2, y3, y4, h1, m1, m2, h2, d1, d2] \<Rightarrow>
          list_all is_digit [y1, y2, y3, y4, m1, m2, d1, d2] \<and> h1 = CHR ''-'' \<and> h2 = CHR ''-''
      | _ \<Rightarrow> False)"

definition time_shape :: "string \<Rightarrow> bool" where
  "time_shape s =
     (case s of
        [h1, c, m1, m2] \<Rightarrow> list_all is_digit [h1, m1, m2] \<and> c = CHR '':''
      | [h1, h2, c, m1, m2] \<Rightarrow> list_all is_digit [h1, h2, m1, m2] \<and> c = CHR '':''
      | _ \<Rightarrow> False)"


section \<open>Pattern interpreter (AIService._parse_with_patterns)\<close>

text \<open>Shorthands for writing the patterns of the source.\<close>

definition seqs :: "regex list \<Rightarrow> regex" where
  "seqs rs = foldr Seq rs Empty"

definition any_of :: "regex list \<Rightarrow> regex" where
  "any_of rs = foldr Alt (butlast rs) (last rs)"

definition words :: "string list \<Rightarrow> regex" where
  "words ws = any_of (map Lit ws)"

definition opt :: "regex \<Rightarrow> regex" where
  "opt r = Alt r Empty"

definition plus :: "cclass \<Rightarrow> regex" where
  "plus k = Rep k 1 None True"

definition lazy_plus :: "cclass \<Rightarrow> regex" where
  "lazy_plus k = Rep k 1 None False"

definition star :: "cclass \<Rightarrow> regex" where
  "star k = Rep k 0 None True"

text \<open>\<open>any(word in command_lower for word in ws)\<close>.\<close>

definition any_in :: "string list \<Rightarrow> string \<Rightarrow> bool" where
  "any_in ws s = list_ex (\<lambda>w. is_in w s) ws"

text \<open>\<open>m.group(n).strip()\<close>: a group that took no part is \<open>None\<close>, which has no \<open>strip\<close>.\<close>

definition group_strip :: "string \<Rightarrow> match \<Rightarrow> nat \<Rightarrow> error + string" where
  "group_strip s m n =
     (case group s m n of None \<Rightarrow> Inl AttributeError | Some t \<Rightarrow> Inr (strip t))"

text \<open>The three float literals of the confidence entries.\<close>

definition conf :: "string \<Rightarrow> pyval" where
  "conf text = POther text True"

text \<open>
  The time patterns (lines 327 to 334):
  \<open>(\d{1,2}):(\d{2})\s*(am|pm)?\<close> and \<open>(\d{1,2})\s*(am|pm)\<close>, then the four words.
\<close>

definition specific_time :: regex where
  "specific_time =
     seqs [Group 1 (Rep Digit 1 (Some 2) True), Lit '':'', Group 2 (Rep Digit 2 (Some 2) True),
           star Space, opt (Group 3 (words [''am'', ''pm'']))]"

definition hour_ampm :: regex where
  "hour_ampm =
     seqs [Group 1 (Rep Digit 1 (Some 2) True), star Space, Group 2 (words [''am'', ''pm''])]"

text \<open>The adjustment of the hour by \<open>am\<close> and \<open>pm\<close> (lines 366 to 369 and 374 to 377).\<close>

definition adjust_hour :: "nat \<Rightarrow> string option \<Rightarrow> nat" where
  "adjust_hour hour ampm =
     (if ampm = Some ''pm'' \<and> hour < 12 then hour + 12
      else if ampm = Some ''am'' \<and> hour = 12 then 0
      else hour)"

text \<open>
  The digits of a group as a number (\<open>int(m.group(n))\<close>); the groups read this way
  take part in every match of their pattern.
\<close>

definition group_int :: "string \<Rightarrow> match \<Rightarrow> nat \<Rightarrow> nat" where
  "group_int s m n = (case group s m n of None \<Rightarrow> 0 | Some t \<Rightarrow> int_of_digits t)"

text \<open>Lines 360 to 381: the first time pattern found in the text gives \<open>due_time\<close>.\<close>

definition extract_time :: "string \<Rightarrow> string option" where
  "extract_time command_lower =
     (case re_search specific_time command_lower of
        Some m \<Rightarrow>
          Some (pad 2 (adjust_hour (group_int command_lower m 1) (group command_lower m 3)) @
                '':'' @ pad 2 (group_int command_lower m 2))
      | None \<Rightarrow>
     (case re_search hour_ampm command_lower of
        Some m \<Rightarrow>
          Some (pad 2 (adjust_hour (group_int command_lower m 1) (group command_lower m 2)) @
                '':00'')
      | None \<Rightarrow>
          if re_search (Lit ''morning'') command_lower \<noteq> None then Some ''09:00''
          else if re_search (Lit ''afternoon'') command_lower \<noteq> None then Some ''14:00''
          else if re_search (Lit ''evening'') command_lower \<noteq> None then Some ''18:00''
          else if re_search (Lit ''night'') command_lower \<noteq> None then Some ''20:00''
          else None))"

text \<open>
  The title patterns of the scheduling branch (lines 341 to 345):
  \<open>(?:schedule|plan|book) (.+?) (?:at|on|for|tomorrow|today)\<close>,
  \<open>remind me to (.+?)(?:\s+at|\s+on|\s+for|\s+tomorrow|\s+today|$)\<close> and
  \<open>(?:schedule|plan|remind me to|book) (.+)\<close>.
\<close>

definition title_patterns :: "regex list" where
  "title_patterns =
     [seqs [words [''schedule'', ''plan'', ''book''], Lit '' '', Group 1 (lazy_plus Any_char),
            Lit '' '', words [''at'', ''on'', ''for'', ''tomorrow'', ''today'']],
      seqs [Lit ''remind me to '', Group 1 (lazy_plus Any_char),
            any_of [Seq (plus Space) (Lit ''at''), Seq (plus Space) (Lit ''on''),
                    Seq (plus Space) (Lit ''for''), Seq (plus Space) (Lit ''tomorrow''),
                    Seq (plus Space) (Lit ''today''), Eol]],
      seqs [words [''schedule'', ''plan'', ''remind me to'', ''book''], Lit '' '',
            Group 1 (plus Any_char)]]"

text \<open>The pattern \<open>\b(schedule|plan|remind me to|book|at|on|for)\b\<close> of the fallback.\<close>

definition scheduling_words :: regex where
  "scheduling_words =
     seqs [Word_boundary,
           Group 1 (words [''schedule'', ''plan'', ''remind me to'', ''book'', ''at'', ''on'', ''for'']),
           Word_boundary]"

text \<open>
  Lines 347 to 357: the first title pattern found gives the title; when none is found,
  or the title found is empty, the text without the scheduling words is the title, and
  \<open>Scheduled task\<close> when that is empty too.
\<close>

definition extract_title :: "string \<Rightarrow> error + string" where
  "extract_title command_lower =
     then_do (case first_some (\<lambda>pattern. re_search pattern command_lower) title_patterns of
                None \<Rightarrow> Inr []
              | Some m \<Rightarrow> group_strip command_lower m 1) (\<lambda>title.
       if title \<noteq> [] then Inr title
       else (let title = strip (re_sub_empty scheduling_words command_lower)
             in Inr (if title \<noteq> [] then title else ''Scheduled task'')))"

text \<open>Lines 384 to 388 and lines 411 to 415: the date the text names, as \<open>str\<close> of the date.\<close>

definition extract_date :: "date \<Rightarrow> string \<Rightarrow> error + string option" where
  "extract_date today command_lower =
     (if is_in ''today'' command_lower then Inr (Some (isoformat today))
      else if is_in ''tomorrow'' command_lower
      then (case add_days today 1 of
              None \<Rightarrow> Inl OverflowError
            | Some dt \<Rightarrow> Inr (Some (isoformat dt)))
      else Inr None)"

text \<open>Lines 391 to 398.\<close>

definition extract_priority :: "string \<Rightarrow> string" where
  "extract_priority command_lower =
     (if any_in [''urgent'', ''asap'', ''immediately''] command_lower then ''URGENT''
      else if any_in [''important'', ''high''] command_lower then ''HIGH''
      else if any_in [''low'', ''minor''] command_lower then ''LOW''
      else ''MEDIUM'')"

text \<open>Setting a key when a value was found.\<close>

definition set_if :: "descriptor \<Rightarrow> string \<Rightarrow> string option \<Rightarrow> descriptor" where
  "set_if d k v = (case v of None \<Rightarrow> d | Some s \<Rightarrow> d(k \<mapsto> PStr s))"

text \<open>The scheduling branch (lines 338 to 404).\<close>

definition schedule_command :: "date \<Rightarrow> string \<Rightarrow> error + descriptor" where
  "schedule_command today command_lower =
     (let result = [''action'' \<mapsto> PStr ''create'', ''confidence'' \<mapsto> conf ''0.8'']
      in then_do (extract_title command_lower) (\<lambda>title.
         let result = result(''task_title'' \<mapsto> PStr title);
             result = set_if result ''due_time'' (extract_time command_lower)
         in then_do (extract_date today command_lower) (\<lambda>due.
            let result = set_if result ''due_date'' due;
                result = result(''priority'' \<mapsto> PStr (extract_priority command_lower));
                result = (if is_in ''remind'' command_lower
                          then result(''reminder_time'' \<mapsto> PInt 15) else result)
            in Inr result)))"

text \<open>The listing branch (lines 408 to 425).\<close>

definition list_command :: "date \<Rightarrow> string \<Rightarrow> error + descriptor" where
  "list_command today command_lower =
     (let result = [''action'' \<mapsto> PStr ''list'', ''confidence'' \<mapsto> conf ''0.8'']
      in then_do
           (if any_in [''today'', ''today's''] command_lower then Inr (Some (isoformat today))
            else if any_in [''tomorrow'', ''tomorrow's''] command_lower
            then (case add_days today 1 of
                    None \<Rightarrow> Inl OverflowError
                  | Some dt \<Rightarrow> Inr (Some (isoformat dt)))
            else Inr None) (\<lambda>date_filter.
         let result = set_if result ''date_filter'' date_filter;
             result = (if is_in ''completed'' command_lower
                       then result(''state_filter'' \<mapsto> PStr ''Completed'')
                       else if is_in ''progress'' command_lower
                       then result(''state_filter'' \<mapsto> PStr ''In Progress'')
                       else if is_in ''pending'' command_lower \<or> is_in ''not started'' command_lower
                       then result(''state_filter'' \<mapsto> PStr ''Not Started'')
                       else result)
         in Inr result))"

text \<open>
  The patterns of the remaining branches:
  \<open>(?:add|create|new|make)\s+(?:a\s+)?(?:task\s+)?(?:to\s+)?(.+)\<close> and
  \<open>(.+)\s+(?:task|todo)\<close> (lines 433 to 436);
  \<open>(?:start|begin|working on)\s+(.+?)(?:\s+task)?$\<close> (line 449);
  \<open>(?:complete|finish|mark\s+(?:as\s+)?(?:completed|done)|done)\s+(.+?)(?:\s+task)?$\<close>
  (line 459); \<open>(?:delete|remove)\s+(.+?)(?:\s+task)?$\<close> (line 470).
\<close>

definition create_patterns :: "regex list" where
  "create_patterns =
     [seqs [words [''add'', ''create'', ''new'', ''make''], plus Space,
            opt (Seq (Lit ''a'') (plus Space)), opt (Seq (Lit ''task'') (plus Space)),
            opt (Seq (Lit ''to'') (plus Space)), Group 1 (plus Any_char)],
      seqs [Group 1 (plus Any_char), plus Space, words [''task'', ''todo'']]]"

definition task_suffix :: "regex list" where
  "task_suffix = [plus Space, Group 1 (lazy_plus Any_char), opt (Seq (plus Space) (Lit ''task'')), Eol]"

definition start_pattern :: regex where
  "start_pattern = seqs (words [''start'', ''begin'', ''working on''] # task_suffix)"

definition complete_pattern :: regex where
  "complete_pattern =
     seqs (any_of [Lit ''complete'', Lit ''finish'',
                   seqs [Lit ''mark'', plus Space, opt (Seq (Lit ''as'') (plus Space)),
                         words [''completed'', ''done'']],
                   Lit ''done'']
           # task_suffix)"

definition delete_pattern :: regex where
  "delete_pattern = seqs (words [''delete'', ''remove''] # task_suffix)"

definition task_keywords :: "string list" where
  "task_keywords =
     [''add'', ''create'', ''new'', ''make'', ''start'', ''begin'', ''complete'', ''finish'',
      ''done'', ''delete'', ''remove'', ''show'', ''list'', ''view'', ''see'', ''task'', ''todo'',
      ''schedule'', ''plan'']"

text \<open>A descriptor with an action, a title, further entries and a confidence.\<close>

definition titled :: "string \<Rightarrow> string \<Rightarrow> (string \<times> pyval) list \<Rightarrow> string \<Rightarrow> descriptor" where
  "titled act task_title entries confidence =
     map_of ([(''action'', PStr act), (''task_title'', PStr task_title)] @ entries @
             [(''confidence'', conf confidence)])"

text \<open>
  \<open>_parse_with_patterns\<close>. The branches are tried in the order of the source; the first
  that applies returns.
\<close>

definition parse_with_patterns :: "date \<Rightarrow> string \<Rightarrow> error + descriptor" where
  "parse_with_patterns today command =
     (let command_lower = strip (lower command)
      in if command_lower \<in> set [''hi'', ''hello'', ''hey'', ''good morning'', ''good afternoon'',
                                   ''good evening'']
         then Inr [''action'' \<mapsto> PStr ''chat'', ''message'' \<mapsto> PStr ''greeting'',
                   ''confidence'' \<mapsto> conf ''0.9'']
         else if any_in [''help'', ''what can you do'', ''how do you work'', ''commands''] command_lower
         then Inr [''action'' \<mapsto> PStr ''chat'', ''message'' \<mapsto> PStr ''help'',
                   ''confidence'' \<mapsto> conf ''0.9'']
         else if any_in [''schedule'', ''plan'', ''appointment'', ''meeting'', ''remind'', ''at'',
                         ''on'', ''book''] command_lower
         then schedule_command today command_lower
         else if any_in [''show'', ''list'', ''what's'', ''schedule'', ''agenda'', ''today'',
                         ''tomorrow'', ''view''] command_lower
         then list_command today command_lower
         else if \<not> any_in task_keywords command_lower
         then Inr [''action'' \<mapsto> PStr ''chat'', ''message'' \<mapsto> PStr ''general'',
                   ''confidence'' \<mapsto> conf ''0.8'']
         else
           (case (if any_in [''add'', ''create'', ''new'', ''make''] command_lower
                  then first_some (\<lambda>pattern. re_search pattern command_lower) create_patterns
                  else None) of
              Some m \<Rightarrow>
                then_do (group_strip command_lower m 1) (\<lambda>t. Inr (titled ''create'' t [] ''0.8''))
            | None \<Rightarrow>
           (case (if any_in [''start'', ''begin'', ''working''] command_lower
                  then re_search start_pattern command_lower else None) of
              Some m \<Rightarrow>
                then_do (group_strip command_lower m 1) (\<lambda>t.
                  Inr (titled ''update_state'' t [(''new_state'', PStr ''In Progress'')] ''0.9''))
            | None \<Rightarrow>
           (case (if any_in [''complete'', ''finish'', ''done''] command_lower
                  then re_search complete_pattern command_lower else None) of
              Some m \<Rightarrow>
                then_do (group_strip command_lower m 1) (\<lambda>t.
                  Inr (titled ''update_state'' t [(''new_state'', PStr ''Completed'')] ''0.9''))
            | None \<Rightarrow>
           (case re_search delete_pattern command_lower of
              Some m \<Rightarrow>
                then_do (group_strip command_lower m 1) (\<lambda>t. Inr (titled ''delete'' t [] ''0.8''))
            | None \<Rightarrow>
                Inr [''action'' \<mapsto> PStr ''chat'', ''message'' \<mapsto> PStr ''unclear'',
                     ''confidence'' \<mapsto> conf ''0.5''])))))"


section \<open>Command entry (AIService.process_command)\<close>

text \<open>
  What lines 145 to 157 of \<open>_parse_with_gemini\<close> obtain from the model service:
  nothing usable (the call fails, or the reply is not JSON), a JSON object, or JSON of
  another kind. On a value that is not an object the normalizer either raises, when a key
  name occurs in it, or returns it unchanged; the flag of \<open>Json_other\<close> says which.
\<close>

datatype reply = No_json | Json_object descriptor | Json_other bool

text \<open>
  \<open>_parse_with_gemini\<close>. The date of tomorrow is computed for the prompt before the
  \<open>try\<close>. Inside it, the reply is normalized; every exception there leads to the
  fallback, the pattern interpreter's result normalized. A reply that is not an object
  and passes the normalizer makes the dispatcher's first statement raise
  \<open>AttributeError\<close>, which \<open>process_command\<close> catches like an exception of the
  parsing: it is that exception here.
\<close>

definition parse_with_gemini :: "(date \<Rightarrow> string \<Rightarrow> reply) \<Rightarrow> date \<Rightarrow> string \<Rightarrow> error + descriptor" where
  "parse_with_gemini client today command =
     (case add_days today 1 of
        None \<Rightarrow> Inl OverflowError
      | Some tomorrow \<Rightarrow>
          (let fallback = then_do (parse_with_patterns today command) (normalize_parsed_command today)
           in case client today command of
                No_json \<Rightarrow> fallback
              | Json_object parsed_result \<Rightarrow>
                  (case normalize_parsed_command today parsed_result of
                     Inr normalized \<Rightarrow> Inr normalized
                   | Inl e \<Rightarrow> fallback)
              | Json_other raises \<Rightarrow> if raises then fallback else Inl AttributeError))"

text \<open>\<open>_parse_command\<close>: with a client the model service is asked, without one the patterns.\<close>

definition parse_command ::
  "(date \<Rightarrow> string \<Rightarrow> reply) option \<Rightarrow> date \<Rightarrow> string \<Rightarrow> error + descriptor" where
  "parse_command gemini_client today command =
     (case gemini_client of
        Some client \<Rightarrow> parse_with_gemini client today command
      | None \<Rightarrow> parse_with_patterns today command)"

definition process_command ::
  "library \<Rightarrow> (date \<Rightarrow> string \<Rightarrow> reply) option \<Rightarrow> date \<Rightarrow> string \<Rightarrow> nat \<Rightarrow> db \<Rightarrow>
   AICommandResponse \<times> db" where
  "process_command lib gemini_client today command uid rows =
     (case parse_command gemini_client today command of
        Inl e \<Rightarrow> (failure (Could_not_process e), rows)
      | Inr parsed_command \<Rightarrow> execute_action lib parsed_command uid rows)"

section \<open>Properties of the task store\<close>

lemma state_set_basic_fields: "state (set_basic_fields upd t) = state t"
  by (simp add: set_basic_fields_def Let_def split: option.splits)

lemma task_id_set_basic_fields: "task_id (set_basic_fields upd t) = task_id t"
  by (simp add: set_basic_fields_def Let_def split: option.splits)

lemma user_id_set_basic_fields: "user_id (set_basic_fields upd t) = user_id t"
  by (simp add: set_basic_fields_def Let_def split: option.splits)

lemma get_task_SomeD:
  "get_task tid uid rows = Some t \<Longrightarrow> t \<in> set rows \<and> task_id t = tid \<and> user_id t = uid"
  by (auto simp: get_task_def find_Some_iff)

lemma get_task_None_iff:
  "get_task tid uid rows = None \<longleftrightarrow> (\<forall>t \<in> set rows. \<not> (task_id t = tid \<and> user_id t = uid))"
  by (auto simp: get_task_def find_None_iff)

lemma is_valid_transition_iff:
  "is_valid_transition a b \<longleftrightarrow>
     (a = NOT_STARTED \<and> b = IN_PROGRESS) \<or> (a = IN_PROGRESS \<and> b = COMPLETED)"
  by (cases a; cases b; simp add: is_valid_transition_def)


lemma get_task_commit_row:
  "get_task tid uid rows = Some t \<Longrightarrow> task_id t' = tid \<Longrightarrow> user_id t' = uid \<Longrightarrow>
   get_task tid uid (commit_row t' rows) = Some t'"
  unfolding get_task_def commit_row_def
  by (induction rows) (auto split: if_splits)

lemma commit_row_other:
  "r \<in> set rows \<Longrightarrow> task_id r \<noteq> task_id t \<Longrightarrow> r \<in> set (commit_row t rows)"
  by (auto simp: commit_row_def)

text \<open>
  Claim C1. When \<open>update_task\<close> finds the task and the request names a new state, the
  request is accepted exactly when the step is Not Started to In Progress or In Progress
  to Completed: then the returned task, which is also the stored one, has the new state.
  Every other step (a skip, a step back, the same state, anything from Completed) raises
  the HTTP 400 exception with the invalid-transition text and leaves the database as it
  was; the loaded row object keeps its state as well.
\<close>

theorem update_task_state_transition:
  assumes "get_task tid uid rows = Some t" and "u_state upd = Some s"
  shows "(follows_chain (state t) s \<longrightarrow>
            (\<exists>t' rows'. update_task tid upd uid rows = (Inr t', rows') \<and> state t' = s \<and>
                         get_task tid uid rows' = Some t')) \<and>
         (\<not> follows_chain (state t) s \<longrightarrow>
            update_task tid upd uid rows =
              (Inl (HTTPException 400 (invalid_transition_detail (state t) s)), rows) \<and>
            state (set_basic_fields upd t) = state t)"
proof -
  from assms(1) have id: "task_id t = tid" "user_id t = uid"
    by (auto dest: get_task_SomeD)
  let ?t' = "(set_basic_fields upd t)\<lparr>state := s\<rparr>"
  have "get_task tid uid (commit_row ?t' rows) = Some ?t'"
    using assms(1) id
    by (intro get_task_commit_row) (simp_all add: task_id_set_basic_fields user_id_set_basic_fields)
  then show ?thesis
    using assms
    by (auto simp: update_task_def Let_def state_set_basic_fields is_valid_transition_iff
          follows_chain_def)
qed

theorem update_task_state_transition_witness:
  "update_task 1 (TaskUpdate_of_state IN_PROGRESS) 7 [mk_task 1 ''a'' COMPLETED 7] =
     (Inl (HTTPException 400
        ''Invalid state transition from 'Completed' to 'In Progress'. Allowed transitions: []''),
      [mk_task 1 ''a'' COMPLETED 7]) \<and>
   (\<exists>t' rows'. update_task 1 (TaskUpdate_of_state IN_PROGRESS) 7 [mk_task 1 ''a'' NOT_STARTED 7] =
        (Inr t', rows') \<and> state t' = IN_PROGRESS \<and> get_task 1 7 rows' = Some t')"
  using update_task_state_transition [of 1 7 "[mk_task 1 ''a'' COMPLETED 7]"
      "mk_task 1 ''a'' COMPLETED 7" "TaskUpdate_of_state IN_PROGRESS" IN_PROGRESS]
    update_task_state_transition [of 1 7 "[mk_task 1 ''a'' NOT_STARTED 7]"
      "mk_task 1 ''a'' NOT_STARTED 7" "TaskUpdate_of_state IN_PROGRESS" IN_PROGRESS]
  by (simp add: get_task_def mk_task_def TaskUpdate_of_state_def invalid_transition_detail_def
        repr_str_list_def follows_chain_def)

text \<open>
  Claim C3. In a table whose primary keys are distinct, a task \<open>t\<close> owned by someone
  other than the caller \<open>uid\<close> is never in the result of \<open>search_tasks_by_title\<close> or
  \<open>get_tasks\<close>, whose results hold the caller's tasks only; \<open>update_task\<close> and
  \<open>delete_task\<close> called with the key of \<open>t\<close> raise HTTP 404 and leave the database as
  it was; and whatever key the caller updates or deletes, \<open>t\<close> is still a row afterwards.
\<close>

theorem ownership_isolation:
  assumes "distinct (map task_id rows)" and "t \<in> set rows" and "user_id t \<noteq> uid"
  shows "t \<notin> set (search_tasks_by_title contains p uid rows) \<and>
         t \<notin> set (get_tasks uid sf rows) \<and>
         (\<forall>r \<in> set (search_tasks_by_title contains p uid rows). user_id r = uid) \<and>
         (\<forall>r \<in> set (get_tasks uid sf rows). user_id r = uid) \<and>
         update_task (task_id t) upd uid rows = (Inl (HTTPException 404 ''Task not found''), rows) \<and>
         delete_task (task_id t) uid rows = (Inl (HTTPException 404 ''Task not found''), rows) \<and>
         t \<in> set (snd (update_task tid upd uid rows)) \<and>
         t \<in> set (snd (delete_task tid uid rows))"
proof -
  have none: "get_task (task_id t) uid rows = None"
  proof (rule ccontr)
    assume "get_task (task_id t) uid rows \<noteq> None"
    then obtain r where "r \<in> set rows" "task_id r = task_id t" "user_id r = uid"
      by (auto dest: get_task_SomeD)
    with assms show False
      by (metis distinct_map inj_onD)
  qed
  have upd: "t \<in> set (snd (update_task tid upd uid rows))"
  proof (cases "get_task tid uid rows")
    case None
    then show ?thesis using assms(2) by (simp add: update_task_def)
  next
    case (Some f)
    then have f: "f \<in> set rows" "task_id f = tid" "user_id f = uid"
      by (auto dest: get_task_SomeD)
    with assms have ne: "task_id t \<noteq> tid"
      by (metis distinct_map inj_onD)
    have "t \<in> set (commit_row x rows)" if "task_id x = tid" for x
      using assms(2) ne that by (intro commit_row_other) simp_all
    then show ?thesis using Some f(2) assms(2)
      by (auto simp: update_task_def Let_def task_id_set_basic_fields split: option.splits)
  qed
  have del: "t \<in> set (snd (delete_task tid uid rows))"
  proof (cases "get_task tid uid rows")
    case None
    then show ?thesis using assms(2) by (simp add: delete_task_def)
  next
    case (Some f)
    then have f: "f \<in> set rows" "task_id f = tid" "user_id f = uid"
      by (auto dest: get_task_SomeD)
    with assms have ne: "task_id t \<noteq> task_id f"
      by (metis distinct_map inj_onD)
    then show ?thesis using Some assms(2)
      by (simp add: delete_task_def)
  qed
  have srch: "\<forall>r \<in> set (search_tasks_by_title contains p uid rows). user_id r = uid"
    by (simp add: search_tasks_by_title_def)
  have lst: "\<forall>r \<in> set (get_tasks uid sf rows). user_id r = uid"
    by (auto simp: get_tasks_def Let_def split: option.splits)
  have u404: "update_task (task_id t) upd uid rows = (Inl (HTTPException 404 ''Task not found''), rows)"
    using none by (simp add: update_task_def)
  have d404: "delete_task (task_id t) uid rows = (Inl (HTTPException 404 ''Task not found''), rows)"
    using none by (simp add: delete_task_def)
  from srch lst assms(3) have "t \<notin> set (search_tasks_by_title contains p uid rows)"
    and "t \<notin> set (get_tasks uid sf rows)"
    by blast+
  with srch lst u404 d404 upd del show ?thesis
    by blast
qed

theorem ownership_isolation_witness:
  "distinct (map task_id [mk_task 1 ''a'' NOT_STARTED 7, mk_task 2 ''a'' NOT_STARTED 8]) \<and>
   mk_task 2 ''a'' NOT_STARTED 8 \<in> set [mk_task 1 ''a'' NOT_STARTED 7, mk_task 2 ''a'' NOT_STARTED 8] \<and>
   user_id (mk_task 2 ''a'' NOT_STARTED 8) \<noteq> 7 \<and>
   search_tasks_by_title (\<lambda>ttl p. True) ''a'' 7
     [mk_task 1 ''a'' NOT_STARTED 7, mk_task 2 ''a'' NOT_STARTED 8] = [mk_task 1 ''a'' NOT_STARTED 7] \<and>
   update_task 2 (TaskUpdate_of_state IN_PROGRESS) 7
     [mk_task 1 ''a'' NOT_STARTED 7, mk_task 2 ''a'' NOT_STARTED 8] =
     (Inl (HTTPException 404 ''Task not found''),
      [mk_task 1 ''a'' NOT_STARTED 7, mk_task 2 ''a'' NOT_STARTED 8]) \<and>
   mk_task 2 ''a'' NOT_STARTED 8 \<in> set (snd (delete_task 1 7
     [mk_task 1 ''a'' NOT_STARTED 7, mk_task 2 ''a'' NOT_STARTED 8]))"
  using ownership_isolation [of "[mk_task 1 ''a'' NOT_STARTED 7, mk_task 2 ''a'' NOT_STARTED 8]"
      "mk_task 2 ''a'' NOT_STARTED 8" 7 "\<lambda>ttl p. True" "''a''" None
      "TaskUpdate_of_state IN_PROGRESS" 1]
  by (simp add: mk_task_def search_tasks_by_title_def)


section \<open>Properties of the dispatcher\<close>

lemma get_simps:
  "d k = Some v \<Longrightarrow> get d k = v"
  "d k = None \<Longrightarrow> get d k = PNone"
  "d k = Some v \<Longrightarrow> get_or d k x = v"
  "d k = None \<Longrightarrow> get_or d k x = x"
  "d k = None \<Longrightarrow> has d k = False"
  "d k = Some v \<Longrightarrow> has d k = truthy v"
  "d k = None \<Longrightarrow> data_field d k = None"
  by (simp_all add: get_def get_or_def has_def data_field_def)

lemma then_do_simps [simp]:
  "then_do (Inl e) f = Inl e"
  "then_do (Inr x) f = f x"
  by (simp_all add: then_do_def)

lemma then_do_eq_Inr:
  "then_do r f = Inr y \<longleftrightarrow> (\<exists>x. r = Inr x \<and> f x = Inr y)"
  by (cases r) simp_all

lemma create_task_result:
  "create_task task uid rows = (t, rows') \<Longrightarrow>
   rows' = rows @ [t] \<and> state t = NOT_STARTED \<and> user_id t = uid \<and> task_id t = new_id rows"
  by (auto simp: create_task_def Let_def)

lemma try_create_success:
  assumes "try_create request uid rows = (r, rows')" and "success r"
  shows "\<exists>t. rows' = rows @ [t] \<and> state t = NOT_STARTED \<and> user_id t = uid \<and>
             r_task_id r = Some (task_id t) \<and> message r = Created_text t"
  using assms
  by (cases request) (auto simp: try_create_def failure_def create_task_def Let_def)

lemma execute_create_success:
  assumes "execute_create lib d uid rows = Inr (r, rows')" and "success r"
  shows "\<exists>t. rows' = rows @ [t] \<and> state t = NOT_STARTED \<and> user_id t = uid \<and>
             r_task_id r = Some (task_id t) \<and> message r = Created_text t"
proof -
  from assms have "\<exists>request. try_create request uid rows = (r, rows')"
    by (auto simp: execute_create_def then_do_eq_Inr failure_def split: if_splits)
  with assms(2) show ?thesis
    by (auto dest: try_create_success)
qed

text \<open>
  Claim C4. The store's \<open>create_task\<close> gives every new task the state Not Started; the
  request type has no state field. Through the dispatcher, whatever the descriptor of a
  \<open>create\<close> action holds, a successful response reports a task appended to the table in
  state Not Started. A descriptor with a title and none of the optional keys creates the
  task with that title (trimmed), state Not Started, the default priority, and every
  optional field unset.
\<close>

theorem created_task_is_not_started:
  "state (fst (create_task task uid rows)) = NOT_STARTED \<and>
   (get d ''action'' = PStr ''create'' \<longrightarrow> success (fst (execute_action lib d uid rows)) \<longrightarrow>
      (\<exists>t. snd (execute_action lib d uid rows) = rows @ [t] \<and> state t = NOT_STARTED \<and>
           r_task_id (fst (execute_action lib d uid rows)) = Some (task_id t))) \<and>
   (d ''action'' = Some (PStr ''create'') \<longrightarrow> d ''task_title'' = Some (PStr ttl) \<longrightarrow> strip ttl \<noteq> [] \<longrightarrow>
    (\<forall>k \<in> set [''description'', ''priority'', ''category'', ''scheduled_date'', ''scheduled_time'',
                ''due_date'', ''due_time'', ''reminder_time'']. d k = None) \<longrightarrow>
      (let t = \<lparr>task_id = new_id rows, title = strip ttl, description = None,
                state = NOT_STARTED, priority = MEDIUM, category = None,
                scheduled_date = None, scheduled_time = None, due_date = None,
                due_time = None, reminder_time = None, user_id = uid\<rparr>
       in execute_action lib d uid rows =
            (\<lparr>success = True, message = Created_text t, action = Some ''create'',
              r_task_id = Some (new_id rows), tasks = None\<rparr>, rows @ [t])))"
proof (intro conjI impI)
  show "state (fst (create_task task uid rows)) = NOT_STARTED"
    by (simp add: create_task_def Let_def)
next
  assume a: "get d ''action'' = PStr ''create''" and s: "success (fst (execute_action lib d uid rows))"
  show "\<exists>t. snd (execute_action lib d uid rows) = rows @ [t] \<and> state t = NOT_STARTED \<and>
           r_task_id (fst (execute_action lib d uid rows)) = Some (task_id t)"
  proof (cases "execute_create lib d uid rows")
    case (Inl e)
    with a s show ?thesis by (simp add: execute_action_def failure_def)
  next
    case (Inr res)
    obtain r rows' where res: "res = (r, rows')" by (cases res)
    with Inr a have ea: "execute_action lib d uid rows = (r, rows')"
      by (simp add: execute_action_def)
    with s have "success r" by simp
    from execute_create_success [OF Inr [unfolded res] this] ea show ?thesis by auto
  qed
next
  assume "d ''action'' = Some (PStr ''create'')" "d ''task_title'' = Some (PStr ttl)" "strip ttl \<noteq> []"
    "\<forall>k \<in> set [''description'', ''priority'', ''category'', ''scheduled_date'', ''scheduled_time'',
                ''due_date'', ''due_time'', ''reminder_time'']. d k = None"
  then show "let t = \<lparr>task_id = new_id rows, title = strip ttl, description = None,
                state = NOT_STARTED, priority = MEDIUM, category = None,
                scheduled_date = None, scheduled_time = None, due_date = None,
                due_time = None, reminder_time = None, user_id = uid\<rparr>
       in execute_action lib d uid rows =
            (\<lparr>success = True, message = Created_text t, action = Some ''create'',
              r_task_id = Some (new_id rows), tasks = None\<rparr>, rows @ [t])"
    by (simp add: execute_action_def execute_create_def get_simps make_TaskCreate_def
          validate_opt_def try_create_def create_task_def Let_def)
qed

theorem created_task_is_not_started_witness:
  "state (fst (create_task (TaskCreate_of_title ''x'') 7 [])) = NOT_STARTED \<and>
   execute_action plain_library
     [''action'' \<mapsto> PStr ''create'', ''task_title'' \<mapsto> PStr ''buy milk'', ''state'' \<mapsto> PStr ''Completed'']
     7 [] =
     (\<lparr>success = True,
       message = Created_text
         \<lparr>task_id = 1, title = ''buy milk'', description = None, state = NOT_STARTED,
          priority = MEDIUM, category = None, scheduled_date = None, scheduled_time = None,
          due_date = None, due_time = None, reminder_time = None, user_id = 7\<rparr>,
       action = Some ''create'', r_task_id = Some 1, tasks = None\<rparr>,
      [\<lparr>task_id = 1, title = ''buy milk'', description = None, state = NOT_STARTED,
        priority = MEDIUM, category = None, scheduled_date = None, scheduled_time = None,
        due_date = None, due_time = None, reminder_time = None, user_id = 7\<rparr>])"
proof -
  have s: "strip ''buy milk'' = ''buy milk''"
    by (simp add: strip_def is_space_def)
  show ?thesis
    using created_task_is_not_started [where task = "TaskCreate_of_title ''x''" and uid = 7
        and rows = "[]" and lib = plain_library and ttl = "''buy milk''"
        and d = "[''action'' \<mapsto> PStr ''create'', ''task_title'' \<mapsto> PStr ''buy milk'', ''state'' \<mapsto> PStr ''Completed'']"]
    by (simp add: s new_id_def Let_def)
qed

lemma ambiguous_title_fails:
  assumes "get d ''action'' = PStr ''update_state'' \<or> get d ''action'' = PStr ''delete''"
    and "get_or d ''task_title'' (PStr '''') = PStr ttl" and ne: "strip ttl \<noteq> []"
    and "1 < length (search_tasks_by_title (title_contains lib) (strip ttl) uid rows)"
  shows "execute_action lib d uid rows =
           (failure (multiple_found (search_tasks_by_title (title_contains lib) (strip ttl) uid rows)),
            rows)"
proof -
  let ?m = "search_tasks_by_title (title_contains lib) (strip ttl) uid rows"
  from assms(4) obtain a b cs where m: "?m = a # b # cs"
    by (cases ?m; cases "tl ?m") auto
  from assms(2) have sv: "strip_value (get_or d ''task_title'' (PStr '''')) = Inr (strip ttl)"
    by simp
  from assms(1) show ?thesis
  proof
    assume "get d ''action'' = PStr ''update_state''"
    then show ?thesis using sv ne m
      by (simp add: execute_action_def execute_update_state_def Let_def)
  next
    assume "get d ''action'' = PStr ''delete''"
    then show ?thesis using sv ne m
      by (simp add: execute_action_def execute_delete_def Let_def)
  qed
qed

text \<open>
  Claim C10. A descriptor whose action is \<open>update_task\<close> reaches no branch of the
  dispatcher that calls the store: the answer is the failure with the generic
  "couldn't understand" text, and the database is the one given.
\<close>

theorem update_task_action_not_dispatched:
  "d ''action'' = Some (PStr ''update_task'') \<Longrightarrow>
   execute_action lib d uid rows = (failure could_not_understand, rows)"
  by (simp add: execute_action_def get_simps)

theorem update_task_action_not_dispatched_witness:
  "execute_action plain_library
     [''action'' \<mapsto> PStr ''update_task'', ''task_title'' \<mapsto> PStr ''a'', ''new_title'' \<mapsto> PStr ''b'']
     7 [mk_task 1 ''a'' NOT_STARTED 7] =
   (\<lparr>success = False,
     message = Text ''I couldn't understand what you want to do. Try commands like 'create task', 'start task', 'complete task', or 'show tasks'.'',
     action = None, r_task_id = None, tasks = None\<rparr>,
    [mk_task 1 ''a'' NOT_STARTED 7])"
  using update_task_action_not_dispatched [of
     "[''action'' \<mapsto> PStr ''update_task'', ''task_title'' \<mapsto> PStr ''a'', ''new_title'' \<mapsto> PStr ''b'']"
     plain_library 7 "[mk_task 1 ''a'' NOT_STARTED 7]"]
  by (simp add: failure_def could_not_understand_def)

text \<open>
  Claim C9. For a descriptor whose action is \<open>list\<close>, setting, changing or removing the
  keys \<open>date_filter\<close> and \<open>category_filter\<close> changes nothing in what the dispatcher
  returns: the response is that of the \<open>list\<close> branch, which reads \<open>state_filter\<close>
  only, and the database is the one given.
\<close>

theorem list_ignores_date_and_category_filter:
  "d ''action'' = Some (PStr ''list'') \<Longrightarrow>
   execute_action lib (d(''date_filter'' := x, ''category_filter'' := y)) uid rows =
     execute_action lib d uid rows \<and>
   execute_action lib d uid rows = (execute_list d uid rows, rows)"
  by (simp add: execute_action_def execute_list_def get_def Let_def)

theorem list_ignores_date_and_category_filter_witness:
  "execute_action plain_library
     [''action'' \<mapsto> PStr ''list'', ''date_filter'' \<mapsto> PStr ''2024-01-05'', ''category_filter'' \<mapsto> PStr ''Work'']
     7 [mk_task 1 ''a'' NOT_STARTED 7, mk_task 2 ''b'' COMPLETED 8] =
   execute_action plain_library [''action'' \<mapsto> PStr ''list'']
     7 [mk_task 1 ''a'' NOT_STARTED 7, mk_task 2 ''b'' COMPLETED 8] \<and>
   execute_action plain_library [''action'' \<mapsto> PStr ''list'']
     7 [mk_task 1 ''a'' NOT_STARTED 7, mk_task 2 ''b'' COMPLETED 8] =
   (\<lparr>success = True, message = Text ''Found 1 task(s)'', action = Some ''list'',
     r_task_id = None, tasks = Some [mk_task 1 ''a'' NOT_STARTED 7]\<rparr>,
    [mk_task 1 ''a'' NOT_STARTED 7, mk_task 2 ''b'' COMPLETED 8])"
  using list_ignores_date_and_category_filter [of "[''action'' \<mapsto> PStr ''list'']"
      plain_library "Some (PStr ''2024-01-05'')" "Some (PStr ''Work'')" 7
      "[mk_task 1 ''a'' NOT_STARTED 7, mk_task 2 ''b'' COMPLETED 8]"]
  by (simp add: execute_list_def get_def get_tasks_def mk_task_def digit_char_def)


section \<open>Properties of strings, dates and patterns\<close>

declare remove_from.simps [simp del]

lemma strip_id:
  assumes "s \<noteq> []" "\<not> is_space (hd s)" "\<not> is_space (last s)"
  shows "strip s = s"
proof -
  from assms have 1: "dropWhile is_space s = s"
    by (cases s) auto
  from assms have "rev s \<noteq> []" "\<not> is_space (hd (rev s))"
    by (simp_all add: hd_rev)
  then have "dropWhile is_space (rev s) = rev s"
    by (cases "rev s") auto
  with 1 show ?thesis by (simp add: strip_def)
qed

lemma strip_ends:
  assumes "strip s \<noteq> []"
  shows "\<not> is_space (hd (strip s)) \<and> \<not> is_space (last (strip s))"
proof -
  let ?a = "dropWhile is_space s"
  let ?b = "dropWhile is_space (rev ?a)"
  from assms have b: "?b \<noteq> []" by (simp add: strip_def)
  then have hb: "\<not> is_space (hd ?b)" by (rule hd_dropWhile)
  have l: "last (strip s) = hd ?b" using b by (simp add: strip_def last_rev)
  have a: "?a \<noteq> []"
  proof
    assume "?a = []"
    then have "?b = []" by (simp only: rev.simps dropWhile.simps)
    with b show False by (rule notE)
  qed
  then have ha: "\<not> is_space (hd ?a)" by (rule hd_dropWhile)
  have "hd (strip s) = last ?b" using b by (simp add: strip_def hd_rev)
  also have "\<dots> = last (rev ?a)"
    using b by (metis last_appendR takeWhile_dropWhile_id)
  also have "\<dots> = hd ?a" using a by (simp add: last_rev)
  finally show ?thesis using ha hb l by simp
qed

lemma lower_id: "(\<And>c. c \<in> set s \<Longrightarrow> lower_char c = c) \<Longrightarrow> lower s = s"
  by (simp add: lower_def map_idI)

lemma is_in_set: "is_in sub s \<Longrightarrow> set sub \<subseteq> set s"
proof -
  assume "is_in sub s"
  then obtain i where "take (length sub) (drop i s) = sub"
    by (auto simp: is_in_def list_ex_iff)
  then have "set sub \<subseteq> set (drop i s)"
    by (metis set_take_subset)
  then show ?thesis
    using set_drop_subset by fastforce
qed

lemma match_at_brackets:
  "i < length s \<Longrightarrow>
   match_at brackets s i = (if s ! i \<in> set ''[]'' then Some (i, Suc i, Map.empty) else None)"
proof -
  assume i: "i < length s"
  then have d: "drop i s = s ! i # drop (Suc i) s"
    by (simp add: Cons_nth_drop_Suc)
  show ?thesis
    by (simp add: match_at_def brackets_def d Let_def upt_rec)
qed

lemma remove_from_brackets:
  "remove_from brackets s i = filter (\<lambda>c. c \<notin> set ''[]'') (drop i s)"
proof (induction "length s - i" arbitrary: i rule: less_induct)
  case less
  show ?case
  proof (cases "length s \<le> i")
    case True
    then show ?thesis by (simp add: remove_from.simps)
  next
    case False
    then have i: "i < length s" by simp
    then have d: "drop i s = s ! i # drop (Suc i) s"
      by (simp add: Cons_nth_drop_Suc)
    have ih: "remove_from brackets s (Suc i) = filter (\<lambda>c. c \<notin> set ''[]'') (drop (Suc i) s)"
      using less [of "Suc i"] i by simp
    show ?thesis
      using i ih by (subst remove_from.simps) (simp add: match_at_brackets d)
  qed
qed

lemma re_sub_empty_brackets: "re_sub_empty brackets s = filter (\<lambda>c. c \<notin> set ''[]'') s"
  by (simp only: re_sub_empty_def remove_from_brackets drop_0)

lemma month_alternatives_shape:
  "(m, r1) \<in> set (month_alternatives r0) \<Longrightarrow>
   \<exists>p. r0 = p @ r1 \<and> p \<noteq> [] \<and> (\<forall>c \<in> set p. is_digit c)"
  by (auto simp: month_alternatives_def is_digit_def split: list.splits if_splits)

lemma day_alternatives_shape:
  "(d, r3) \<in> set (day_alternatives r2) \<Longrightarrow>
   \<exists>p. r2 = p @ r3 \<and> p \<noteq> [] \<and> (\<forall>c \<in> set p. is_digit c \<or> c = CHR '' '') \<and> is_digit (last p)"
  by (auto simp: day_alternatives_def is_digit_def split: list.splits if_splits)

lemma strptime_ymd_shape:
  assumes "strptime_ymd s = Some dt"
  shows "s \<noteq> [] \<and> is_digit (hd s) \<and> is_digit (last s) \<and>
         (\<forall>c \<in> set s. is_digit c \<or> c = CHR ''-'' \<or> c = CHR '' '') \<and> valid_date dt"
proof -
  from assms obtain y1 y2 y3 y4 c r0 where s: "s = y1 # y2 # y3 # y4 # c # r0"
    by (auto simp: strptime_ymd_def split: list.splits)
  from assms s have dig: "is_digit y1" "is_digit y2" "is_digit y3" "is_digit y4" "c = CHR ''-''"
    by (auto simp: strptime_ymd_def split: if_splits)
  from assms s dig obtain m d rest where c: "month_day_matches r0 = (m, d, []) # rest"
    and v: "valid_date dt"
    by (auto simp: strptime_ymd_def split: list.splits if_splits)
  then have "(m, d, []) \<in> set (month_day_matches r0)" by simp
  then obtain r2 where m: "(m, CHR ''-'' # r2) \<in> set (month_alternatives r0)"
    and d: "(d, []) \<in> set (day_alternatives r2)"
    by (auto simp: month_day_matches_def split: list.splits if_splits)
  from month_alternatives_shape [OF m] obtain p1 where p1: "r0 = p1 @ CHR ''-'' # r2"
    "\<forall>c \<in> set p1. is_digit c" by auto
  from day_alternatives_shape [OF d] obtain p2 where p2: "r2 = p2" "p2 \<noteq> []"
    "\<forall>c \<in> set p2. is_digit c \<or> c = CHR '' ''" "is_digit (last p2)" by auto
  show ?thesis
    using s dig p1 p2 v by auto
qed

lemma in_matches_Lit:
  "(j, g') \<in> set (matches s (Lit w) (i, g)) \<longleftrightarrow>
     g' = g \<and> j = i + length w \<and> take (length w) (drop i s) = w"
  by auto

lemma le_length_takeWhile:
  "n \<le> length (takeWhile P xs) \<longleftrightarrow> n \<le> length xs \<and> list_all P (take n xs)"
proof (induction xs arbitrary: n)
  case Nil
  then show ?case by simp
next
  case (Cons x xs)
  then show ?case by (cases n) auto
qed

lemma in_matches_Rep:
  "(j, g') \<in> set (matches s (Rep k lo hi greedy) (i, g)) \<longleftrightarrow>
     g' = g \<and> (\<exists>n. j = i + n \<and> lo \<le> n \<and> (case hi of None \<Rightarrow> True | Some h \<Rightarrow> n \<le> h) \<and>
                   n \<le> length (drop i s) \<and> list_all (in_class k) (take n (drop i s)))"
proof -
  let ?av = "length (takeWhile (in_class k) (drop i s))"
  let ?up = "case hi of None \<Rightarrow> ?av | Some h \<Rightarrow> min h ?av"
  have 1: "set (matches s (Rep k lo hi greedy) (i, g)) = (\<lambda>n. (i + n, g)) ` {lo..?up}"
  proof -
    have "set (matches s (Rep k lo hi greedy) (i, g)) = (\<lambda>n. (i + n, g)) ` set [lo..<Suc ?up]"
      by (simp add: Let_def del: upt_Suc)
    also have "set [lo..<Suc ?up] = {lo..?up}"
      by (simp only: set_upt atLeastLessThanSuc_atLeastAtMost)
    finally show ?thesis .
  qed
  have 2: "n \<in> {lo..?up} \<longleftrightarrow>
             lo \<le> n \<and> (case hi of None \<Rightarrow> True | Some h \<Rightarrow> n \<le> h) \<and> n \<le> ?av" for n
    by (cases hi) auto
  have 3: "n \<le> ?av \<longleftrightarrow> n \<le> length (drop i s) \<and> list_all (in_class k) (take n (drop i s))" for n
    by (rule le_length_takeWhile)
  show ?thesis
    unfolding 1 image_iff Bex_def 2 3 by auto
qed

lemma in_matches_Seq:
  "(j, g') \<in> set (matches s (Seq a b) (i, g)) \<longleftrightarrow>
     (\<exists>k h. (k, h) \<in> set (matches s a (i, g)) \<and> (j, g') \<in> set (matches s b (k, h)))"
  by auto

lemma in_matches_Alt:
  "(j, g') \<in> set (matches s (Alt a b) (i, g)) \<longleftrightarrow>
     (j, g') \<in> set (matches s a (i, g)) \<or> (j, g') \<in> set (matches s b (i, g))"
  by auto

lemma in_matches_Group:
  "(j, g') \<in> set (matches s (Group n r) (i, g)) \<longleftrightarrow>
     (\<exists>h. (j, h) \<in> set (matches s r (i, g)) \<and> g' = h(n \<mapsto> (i, j)))"
  by auto

lemma in_matches_Bol:
  "(j, g') \<in> set (matches s Bol (i, g)) \<longleftrightarrow> g' = g \<and> j = i \<and> i = 0"
  by auto

lemma in_matches_Eol:
  "(j, g') \<in> set (matches s Eol (i, g)) \<longleftrightarrow>
     g' = g \<and> j = i \<and> (i = length s \<or> (Suc i = length s \<and> s ! i = CHR 0x0A))"
  by auto

lemma in_matches_Empty:
  "(j, g') \<in> set (matches s Empty (i, g)) \<longleftrightarrow> g' = g \<and> j = i"
  by auto

lemmas in_matches = in_matches_Lit in_matches_Rep in_matches_Seq in_matches_Alt
  in_matches_Group in_matches_Bol in_matches_Eol in_matches_Empty

lemma in_class_eqs [simp]:
  "in_class Digit = is_digit"
  "in_class Space = is_space"
  by (rule ext, simp)+

lemma match_at_Some_iff:
  "match_at r s i \<noteq> None \<longleftrightarrow> (\<exists>j g. (j, g) \<in> set (matches s r (i, Map.empty)))"
  by (auto simp: match_at_def split: list.splits)

lemma time_regex_matchD:
  assumes "re_match time_regex s \<noteq> None"
  shows "\<exists>n. (n = 1 \<or> n = 2) \<and> list_all is_digit (take n s) \<and>
          take 1 (drop n s) = '':'' \<and> list_all is_digit (take 2 (drop (Suc n) s)) \<and>
          (n + 3 = length s \<or> (n + 4 = length s \<and> s ! (n + 3) = CHR 0x0A))"
proof -
  from assms have "\<exists>j g. (j, g) \<in> set (matches s time_regex (0, Map.empty))"
    unfolding re_match_def by (simp only: match_at_Some_iff)
  then obtain k where k: "1 \<le> k" "k \<le> 2" "list_all is_digit (take k s)"
    "take 1 (drop k s) = '':''" "list_all is_digit (take 2 (drop (Suc k) s))"
    "Suc (Suc (Suc k)) = length s \<or>
     (Suc (Suc (Suc (Suc k))) = length s \<and> s ! Suc (Suc (Suc k)) = CHR 0x0A)"
    unfolding time_regex_def in_matches by auto
  from k(6) have "k + 3 = length s \<or> (k + 4 = length s \<and> s ! (k + 3) = CHR 0x0A)"
    by (simp add: eval_nat_numeral)
  moreover from k(1,2) have "k = 1 \<or> k = 2" by arith
  ultimately show ?thesis using k(3,4,5) by blast
qed

lemma list4: "length s = 4 \<Longrightarrow> \<exists>a b c d. s = [a, b, c, d]"
  by (auto simp: numeral_eq_Suc length_Suc_conv)

lemma list5: "length s = 5 \<Longrightarrow> \<exists>a b c d e. s = [a, b, c, d, e]"
  by (auto simp: numeral_eq_Suc length_Suc_conv)

lemma list6: "length s = 6 \<Longrightarrow> \<exists>a b c d e f. s = [a, b, c, d, e, f]"
  by (auto simp: numeral_eq_Suc length_Suc_conv)

lemma time_regex_shape:
  assumes "re_match time_regex s \<noteq> None"
  shows "time_shape s \<or> (\<exists>t. time_shape t \<and> s = t @ [CHR 0x0A])"
proof -
  from time_regex_matchD [OF assms] obtain n where n: "n = 1 \<or> n = 2"
    "list_all is_digit (take n s)" "take 1 (drop n s) = '':''"
    "list_all is_digit (take 2 (drop (Suc n) s))"
    "n + 3 = length s \<or> (n + 4 = length s \<and> s ! (n + 3) = CHR 0x0A)"
    by blast
  from n(1,5) consider "length s = 4" "n = 1" | "length s = 5" "n = 2"
    | "length s = 5" "n = 1" "s ! 4 = CHR 0x0A" | "length s = 6" "n = 2" "s ! 5 = CHR 0x0A"
    by auto
  then show ?thesis
  proof cases
    case 1
    from list4 [OF 1(1)] obtain a b c d where "s = [a, b, c, d]" by blast
    with n 1 show ?thesis by (simp add: time_shape_def)
  next
    case 2
    from list5 [OF 2(1)] obtain a b c d e where "s = [a, b, c, d, e]" by blast
    with n 2 show ?thesis by (simp add: time_shape_def)
  next
    case 3
    from list5 [OF 3(1)] obtain a b c d e where "s = [a, b, c, d, e]" by blast
    with n 3 show ?thesis by (simp add: time_shape_def)
  next
    case 4
    from list6 [OF 4(1)] obtain a b c d e f where "s = [a, b, c, d, e, f]" by blast
    with n 4 show ?thesis by (simp add: time_shape_def)
  qed
qed

lemma time_shape_cases:
  "time_shape s \<longleftrightarrow>
     (\<exists>h1 m1 m2. s = [h1, CHR '':'', m1, m2] \<and> is_digit h1 \<and> is_digit m1 \<and> is_digit m2) \<or>
     (\<exists>h1 h2 m1 m2. s = [h1, h2, CHR '':'', m1, m2] \<and> is_digit h1 \<and> is_digit h2 \<and>
        is_digit m1 \<and> is_digit m2)"
  by (auto simp: time_shape_def split: list.splits)

lemma is_digit_not_colon [simp]: "\<not> is_digit (CHR '':'')"
  by (simp add: is_digit_def)

lemma time_shape_matches:
  "time_shape s \<Longrightarrow> re_match time_regex s \<noteq> None"
  unfolding time_shape_cases
  by (auto simp: re_match_def match_at_def time_regex_def Let_def upt_rec)

lemma plain_char:
  assumes "is_digit c \<or> c = CHR ''-'' \<or> c = CHR '' '' \<or> c = CHR '':''"
  shows "lower_char c = c" and "c \<notin> set ''[]''"
proof -
  have "list_all (\<lambda>c. lower_char c = c \<and> c \<notin> set ''[]'') ''0123456789- :''"
    by code_simp
  moreover from assms have "c \<in> set ''0123456789- :''"
    by (auto simp: is_digit_def)
  ultimately show "lower_char c = c" and "c \<notin> set ''[]''"
    unfolding list_all_iff by blast+
qed

lemma digit_not_space: "is_digit c \<Longrightarrow> \<not> is_space c"
  by (auto simp: is_digit_def is_space_def)

lemma normalize_date_field_accepted:
  assumes "strptime_ymd s = Some dt"
  shows "normalize_date_field today (PStr s) = Inr (Some s)"
proof -
  from strptime_ymd_shape [OF assms] have ne: "s \<noteq> []" and hd: "is_digit (hd s)"
    and lst: "is_digit (last s)"
    and chars: "\<forall>c \<in> set s. is_digit c \<or> c = CHR ''-'' \<or> c = CHR '' ''"
    by simp_all
  have low: "lower s = s"
    using chars by (intro lower_id plain_char) auto
  have str: "strip s = s"
    using ne hd lst by (intro strip_id) (auto dest: digit_not_space)
  have br: "re_sub_empty brackets s = s"
    unfolding re_sub_empty_brackets using chars plain_char(2) by (intro filter_True) blast
  have hd_ne: "s \<noteq> t" if "\<not> is_digit (hd t)" for t
    using hd that by auto
  have no: "\<not> is_in w s" if "\<exists>c \<in> set w. \<not> (is_digit c \<or> c = CHR ''-'' \<or> c = CHR '' '')" for w
    using that chars by (auto dest!: is_in_set)
  have nw: "\<not> is_in ''next week'' s" "\<not> is_in ''next month'' s"
    by (rule no; simp add: is_digit_def)+
  have lists: "s \<notin> set [''yyyy-mm-dd'', ''yyyy/mm/dd'', ''[yyyy-mm-dd]'']"
    "s \<notin> set [''today'', ''[today]'']" "s \<notin> set [''tomorrow'', ''[tomorrow]'']"
    "s \<notin> set [''yesterday'', ''[yesterday]'']"
    using hd by (auto simp: is_digit_def)
  show ?thesis
    using ne lists nw assms
    by (simp add: normalize_date_field_def low str br Let_def del: set_simps)
qed

lemma normalize_priority_idem:
  "normalize_priority (normalize_priority e) = normalize_priority e"
proof (cases e)
  case None
  then show ?thesis by (simp add: normalize_priority_def)
next
  case (Some v)
  have l: "lower ''LOW'' = ''low''" "lower ''MEDIUM'' = ''medium''" "lower ''HIGH'' = ''high''"
    "lower ''URGENT'' = ''urgent''"
    by code_simp+
  show ?thesis
  proof (cases "truthy v")
    case False
    with Some show ?thesis by (simp add: normalize_priority_def)
  next
    case True
    show ?thesis
    proof (cases "map_of priority_map (lower (py_str v))")
      case None
      with Some True show ?thesis by (simp add: normalize_priority_def)
    next
      case (Some p)
      then have "p \<in> set [''LOW'', ''MEDIUM'', ''HIGH'', ''URGENT'']"
        by (auto simp: priority_map_def split: if_splits)
      then show ?thesis using \<open>e = Some v\<close> True Some
        by (auto simp: normalize_priority_def l priority_map_def)
    qed
  qed
qed

lemma time_shape_plain:
  assumes "time_shape s"
  shows "s \<noteq> []" "lower s = s" "strip s = s" "is_digit (hd s)"
proof -
  from assms have chars: "\<forall>c \<in> set s. is_digit c \<or> c = CHR '':''" and ne: "s \<noteq> []"
    and hd: "is_digit (hd s)" and lst: "is_digit (last s)"
    unfolding time_shape_cases by auto
  show "s \<noteq> []" by fact
  show "is_digit (hd s)" by fact
  show "lower s = s" using chars by (intro lower_id plain_char) auto
  show "strip s = s" using ne hd lst by (intro strip_id) (auto dest: digit_not_space)
qed

lemma normalize_time_field_shape:
  assumes "time_shape s"
  shows "normalize_time_field (PStr s) = Some s"
proof -
  note p = time_shape_plain [OF assms]
  have "s \<notin> set [''hh:mm'', ''hh:mm:ss'', ''[hh:mm]'']"
    using p(4) by (auto simp: is_digit_def)
  moreover have "s \<notin> fst ` set time_mappings"
    using p(4) by (auto simp: time_mappings_def is_digit_def)
  then have "map_of time_mappings s = None"
    by (simp only: map_of_eq_None_iff not_False_eq_True)
  moreover note p(1,2,3) time_shape_matches [OF assms]
  ultimately show ?thesis
    by (simp add: normalize_time_field_def Let_def del: set_simps)
qed

lemma normalize_time_field_result:
  assumes "normalize_time_field v = Some s"
  shows "time_shape s"
proof -
  let ?t = "strip (lower (py_str v))"
  from assms consider "map_of time_mappings ?t = Some s"
    | "re_match time_regex ?t \<noteq> None" "s = ?t"
    by (auto simp: normalize_time_field_def Let_def split: if_splits option.splits)
  then show ?thesis
  proof cases
    case 1
    then have "s \<in> set [''09:00'', ''14:00'', ''18:00'', ''20:00'', ''12:00'', ''00:00'']"
      by (auto simp: time_mappings_def split: if_splits)
    then show ?thesis
      by (auto simp: time_shape_def is_digit_def)
  next
    case 2
    from time_regex_shape [OF 2(1)] show ?thesis
    proof
      assume "time_shape ?t"
      with 2 show ?thesis by simp
    next
      assume "\<exists>t. time_shape t \<and> ?t = t @ [CHR 0x0A]"
      then obtain t where t: "?t = t @ [CHR 0x0A]" by blast
      then have "?t \<noteq> []" "last ?t = CHR 0x0A" by simp_all
      with strip_ends [of "lower (py_str v)"] show ?thesis
        by (simp add: is_space_def)
    qed
  qed
qed

lemma digit_char_facts:
  assumes "k < 10"
  shows "is_digit (digit_char k)" and "digit_val (digit_char k) = k"
proof -
  have "list_all (\<lambda>k. is_digit (digit_char k) \<and> digit_val (digit_char k) = k) [0..<10]"
    by code_simp
  with assms show "is_digit (digit_char k)" and "digit_val (digit_char k) = k"
    unfolding list_all_iff by auto
qed

lemma str_nat_step:
  "n < 10 \<Longrightarrow> str_nat n = [digit_char n]"
  "10 \<le> n \<Longrightarrow> str_nat n = str_nat (n div 10) @ [digit_char (n mod 10)]"
  by (subst str_nat.simps, simp)+

lemma replicate_zeros:
  "replicate 3 c = [c, c, c]" "replicate 2 c = [c, c]" "replicate 1 c = [c]"
  by (simp_all add: numeral_3_eq_3 numeral_2_eq_2)

lemma digit_char_0: "digit_char 0 = CHR ''0''"
  by (simp add: digit_char_def)

lemma pad2:
  assumes "n < 100"
  shows "pad 2 n = [digit_char (n div 10), digit_char (n mod 10)]"
proof (cases "n < 10")
  case True
  then show ?thesis by (simp add: pad_def str_nat_step replicate_zeros digit_char_0)
next
  case False
  with assms have "n div 10 < 10" by simp
  with False show ?thesis by (simp add: pad_def str_nat_step)
qed

lemma pad4:
  assumes "n < 10000"
  shows "pad 4 n = [digit_char (n div 10 div 10 div 10), digit_char (n div 10 div 10 mod 10),
                    digit_char (n div 10 mod 10), digit_char (n mod 10)]"
proof -
  consider "n < 10" | "10 \<le> n" "n < 100" | "100 \<le> n" "n < 1000" | "1000 \<le> n"
    by linarith
  then show ?thesis
  proof cases
    case 1
    then show ?thesis by (simp add: pad_def str_nat_step replicate_zeros digit_char_0)
  next
    case 2
    then have "n div 10 < 10" by simp
    with 2 show ?thesis by (simp add: pad_def str_nat_step replicate_zeros digit_char_0)
  next
    case 3
    then have "10 \<le> n div 10" "n div 10 div 10 < 10" by simp_all
    with 3 show ?thesis by (simp add: pad_def str_nat_step replicate_zeros digit_char_0)
  next
    case 4
    with assms have "10 \<le> n div 10" "10 \<le> n div 10 div 10" "n div 10 div 10 div 10 < 10"
      by simp_all
    with 4 show ?thesis by (simp add: pad_def str_nat_step)
  qed
qed

lemma int_of_digits4:
  assumes "n < 10000"
  shows "int_of_digits [digit_char (n div 10 div 10 div 10), digit_char (n div 10 div 10 mod 10),
                        digit_char (n div 10 mod 10), digit_char (n mod 10)] = n"
proof -
  have "n div 10 div 10 div 10 < 10" using assms by simp
  then show ?thesis
    by (simp add: int_of_digits_def digit_char_facts(2))
qed

lemma is_digit_pad:
  "n < 100 \<Longrightarrow> list_all is_digit (pad 2 n)"
  "n < 10000 \<Longrightarrow> list_all is_digit (pad 4 n)"
  by (simp_all add: pad2 pad4 digit_char_facts(1))

lemma month_day_matches_padded:
  assumes "1 \<le> m" "m \<le> 12" "1 \<le> d" "d \<le> 31"
  shows "\<exists>rest. month_day_matches (pad 2 m @ CHR ''-'' # pad 2 d) = (m, d, []) # rest"
proof -
  have "list_all (\<lambda>m. list_all (\<lambda>d.
          case month_day_matches (pad 2 m @ CHR ''-'' # pad 2 d) of
            (m', d', r) # _ \<Rightarrow> m' = m \<and> d' = d \<and> r = []
          | [] \<Rightarrow> False) [1..<32]) [1..<13]"
    by code_simp
  with assms have "case month_day_matches (pad 2 m @ CHR ''-'' # pad 2 d) of
            (m', d', r) # _ \<Rightarrow> m' = m \<and> d' = d \<and> r = []
          | [] \<Rightarrow> False"
    unfolding list_all_iff by auto
  then show ?thesis
    by (auto split: list.splits)
qed

lemma days_in_month_le: "days_in_month y m \<le> 31" "1 \<le> days_in_month y m"
  by (simp_all add: days_in_month_def)

lemma strptime_isoformat:
  assumes "valid_date dt"
  shows "strptime_ymd (isoformat dt) = Some dt"
proof -
  obtain y m d where dt: "dt = (y, m, d)" by (cases dt)
  with assms have y: "y < 10000" and v: "1 \<le> m" "m \<le> 12" "1 \<le> d" "d \<le> 31"
    using days_in_month_le(1) [of y m] by auto
  from month_day_matches_padded [OF v] obtain rest where
    md: "month_day_matches (pad 2 m @ CHR ''-'' # pad 2 d) = (m, d, []) # rest" by blast
  have dg: "is_digit (digit_char (k mod 10))" for k
    by (rule digit_char_facts) simp
  have d1: "is_digit (digit_char (y div 10 div 10 div 10))"
    using y by (intro digit_char_facts) simp
  show ?thesis
    using assms y
    by (simp add: dt strptime_ymd_def pad4 md dg d1 int_of_digits4)
qed

lemma next_day_valid: "valid_date dt \<Longrightarrow> next_day dt = Some dt' \<Longrightarrow> valid_date dt'"
  by (cases dt) (auto simp: days_in_month_def split: if_splits)

lemma prev_day_valid: "valid_date dt \<Longrightarrow> prev_day dt = Some dt' \<Longrightarrow> valid_date dt'"
  by (cases dt) (auto simp: days_in_month_def split: if_splits)

lemma add_days_valid: "valid_date dt \<Longrightarrow> add_days dt n = Some dt' \<Longrightarrow> valid_date dt'"
  by (induction n arbitrary: dt) (auto split: option.splits dest: next_day_valid)

lemma next_day_step:
  assumes "valid_date (y, m, d)" and "y0 < 9999"
    and "y = y0 \<or> (y = Suc y0 \<and> m = 1 \<and> d \<le> k)" and "k < 30"
  shows "case next_day (y, m, d) of
           None \<Rightarrow> False
         | Some (y', m', d') \<Rightarrow> y' = y0 \<or> (y' = Suc y0 \<and> m' = 1 \<and> d' \<le> Suc k)"
  using assms by (auto simp: days_in_month_def)

lemma add_days_within_year:
  assumes "valid_date (y, m, d)" and "y0 < 9999"
    and "y = y0 \<or> (y = Suc y0 \<and> m = 1 \<and> d \<le> k)" and "k + n \<le> 30"
  shows "add_days (y, m, d) n \<noteq> None"
  using assms
proof (induction n arbitrary: y m d k)
  case 0
  then show ?case by simp
next
  case (Suc n)
  from Suc.prems(4) have "k < 30" by simp
  from next_day_step [OF Suc.prems(1,2,3) this]
  obtain y' m' d' where nd: "next_day (y, m, d) = Some (y', m', d')"
    and inv: "y' = y0 \<or> (y' = Suc y0 \<and> m' = 1 \<and> d' \<le> Suc k)"
    by (auto split: option.splits)
  from next_day_valid [OF Suc.prems(1) nd] have "valid_date (y', m', d')" .
  from Suc.IH [OF this Suc.prems(2) inv] Suc.prems(4) nd show ?case
    by simp
qed

lemma add_days_no_overflow:
  assumes "valid_date today" and "fst today < 9999" and "n \<le> 30"
  shows "add_days today n \<noteq> None"
proof -
  obtain y m d where t: "today = (y, m, d)" by (cases today)
  with assms show ?thesis
    using add_days_within_year [of y m d y 0 n] by simp
qed

lemma prev_day_no_overflow:
  "valid_date today \<Longrightarrow> 1 < fst today \<Longrightarrow> prev_day today \<noteq> None"
  by (cases today) auto

lemma normalize_date_field_total:
  assumes "valid_date today" and "1 < fst today" and "fst today < 9999"
  shows "\<exists>r. normalize_date_field today v = Inr r"
proof -
  from assms have "add_days today 1 \<noteq> None" "add_days today 7 \<noteq> None" "add_days today 30 \<noteq> None"
    "prev_day today \<noteq> None"
    by (simp_all add: add_days_no_overflow prev_day_no_overflow del: add_days.simps)
  then show ?thesis
    by (auto simp: normalize_date_field_def Let_def simp del: add_days.simps set_simps
        split: option.splits)
qed

lemma normalize_date_field_result:
  assumes "valid_date today" and "normalize_date_field today v = Inr (Some s)"
  shows "strptime_ymd s \<noteq> None"
proof -
  from assms(2) consider dt where "valid_date dt" "s = isoformat dt" | "strptime_ymd s \<noteq> None"
    using assms(1)
    by (auto simp: normalize_date_field_def Let_def simp del: add_days.simps set_simps
        split: if_splits option.splits dest: add_days_valid prev_day_valid)
  then show ?thesis
    by cases (simp_all add: strptime_isoformat)
qed


section \<open>Properties of the pattern interpreter\<close>

lemma remind_lower: "strip (lower ''Remind me to call John today'') = ''remind me to call john today''"
  by code_simp

lemma remind_title: "extract_title ''remind me to call john today'' = Inr ''call john''"
  by code_simp

lemma remind_time: "extract_time ''remind me to call john today'' = None"
  by code_simp

lemma remind_flags:
  "\<not> any_in [''help'', ''what can you do'', ''how do you work'', ''commands''] ''remind me to call john today''"
  "any_in [''schedule'', ''plan'', ''appointment'', ''meeting'', ''remind'', ''at'', ''on'', ''book'']
     ''remind me to call john today''"
  "is_in ''today'' ''remind me to call john today''"
  "is_in ''remind'' ''remind me to call john today''"
  "extract_priority ''remind me to call john today'' = ''MEDIUM''"
  by code_simp+

text \<open>
  Claim C8. On any day \<open>today\<close>, the pattern interpreter parses
  "Remind me to call John today" into the \<open>create\<close> descriptor with title
  \<open>call john\<close> (which is "call John" in lower case), the due date \<open>str(today)\<close>,
  the reminder 15, the default priority and the confidence 0.8.
\<close>

theorem remind_me_to_call_john_today:
  "parse_with_patterns today ''Remind me to call John today'' =
     Inr [''action'' \<mapsto> PStr ''create'', ''confidence'' \<mapsto> POther ''0.8'' True,
          ''task_title'' \<mapsto> PStr ''call john'', ''due_date'' \<mapsto> PStr (isoformat today),
          ''priority'' \<mapsto> PStr ''MEDIUM'', ''reminder_time'' \<mapsto> PInt 15] \<and>
   lower ''call John'' = ''call john''"
proof -
  have "lower ''call John'' = ''call john''" by code_simp
  then show ?thesis
    by (simp add: parse_with_patterns_def remind_lower schedule_command_def remind_title
          remind_time remind_flags extract_date_def set_if_def conf_def Let_def)
qed

lemma complete_lower: "strip (lower ''complete presentation'') = ''complete presentation''"
  by code_simp

lemma complete_title: "extract_title ''complete presentation'' = Inr ''complete presentation''"
  by code_simp

lemma complete_time: "extract_time ''complete presentation'' = None"
  by code_simp

lemma complete_flags:
  "\<not> any_in [''help'', ''what can you do'', ''how do you work'', ''commands''] ''complete presentation''"
  "any_in [''schedule'', ''plan'', ''appointment'', ''meeting'', ''remind'', ''at'', ''on'', ''book'']
     ''complete presentation''"
  "\<not> is_in ''today'' ''complete presentation''"
  "\<not> is_in ''tomorrow'' ''complete presentation''"
  "\<not> is_in ''remind'' ''complete presentation''"
  "extract_priority ''complete presentation'' = ''MEDIUM''"
  "is_in ''at'' ''presentation''"
  by code_simp+

lemma complete_presentation_parsed:
  "parse_with_patterns today ''complete presentation'' =
     Inr [''action'' \<mapsto> PStr ''create'', ''confidence'' \<mapsto> POther ''0.8'' True,
          ''task_title'' \<mapsto> PStr ''complete presentation'', ''priority'' \<mapsto> PStr ''MEDIUM'']"
  by (simp add: parse_with_patterns_def complete_lower schedule_command_def complete_title
        complete_time complete_flags extract_date_def set_if_def conf_def Let_def)

text \<open>
  Claim C5, at its example. The user 7 owns the two tasks "Presentation draft" and
  "Presentation review" and sends "complete presentation", with no model client. The
  word "presentation" contains "at" and "on", which the test of line 337 finds, so the
  text is read as a scheduling command: the response reports success and a third task,
  titled "complete presentation", is in the table. The branch of lines 458 to 466 for
  "complete" is not reached.
\<close>

theorem complete_presentation_creates_a_task:
  "process_command lib None today ''complete presentation'' 7
     [mk_task 1 ''Presentation draft'' NOT_STARTED 7, mk_task 2 ''Presentation review'' NOT_STARTED 7] =
   (\<lparr>success = True,
     message = Created_text (mk_task 3 ''complete presentation'' NOT_STARTED 7),
     action = Some ''create'', r_task_id = Some 3, tasks = None\<rparr>,
    [mk_task 1 ''Presentation draft'' NOT_STARTED 7, mk_task 2 ''Presentation review'' NOT_STARTED 7,
     mk_task 3 ''complete presentation'' NOT_STARTED 7])"
  by (simp add: process_command_def parse_command_def complete_presentation_parsed
        execute_action_def execute_create_def get_def get_or_def has_def data_field_def
        complete_lower [simplified lower_def] make_TaskCreate_def validate_opt_def then_do_def
        try_create_def create_task_def new_id_def mk_task_def Let_def strip_def is_space_def)

text \<open>
  The same happens to commands the canned help text of the dispatcher offers: "on" in
  "Start working on presentation" and "appointment" in "Delete old appointment" make
  them scheduling commands.
\<close>

lemma help_text_examples_create:
  "parse_with_patterns today ''Start working on presentation'' =
     Inr [''action'' \<mapsto> PStr ''create'', ''confidence'' \<mapsto> POther ''0.8'' True,
          ''task_title'' \<mapsto> PStr ''start working  presentation'', ''priority'' \<mapsto> PStr ''MEDIUM'']"
  "parse_with_patterns today ''Delete old appointment'' =
     Inr [''action'' \<mapsto> PStr ''create'', ''confidence'' \<mapsto> POther ''0.8'' True,
          ''task_title'' \<mapsto> PStr ''delete old appointment'', ''priority'' \<mapsto> PStr ''MEDIUM'']"
proof -
  have 1: "strip (lower ''Start working on presentation'') = ''start working on presentation''"
    "extract_title ''start working on presentation'' = Inr ''start working  presentation''"
    "extract_time ''start working on presentation'' = None"
    "\<not> any_in [''help'', ''what can you do'', ''how do you work'', ''commands'']
        ''start working on presentation''"
    "any_in [''schedule'', ''plan'', ''appointment'', ''meeting'', ''remind'', ''at'', ''on'', ''book'']
       ''start working on presentation''"
    "\<not> is_in ''today'' ''start working on presentation''"
    "\<not> is_in ''tomorrow'' ''start working on presentation''"
    "\<not> is_in ''remind'' ''start working on presentation''"
    "extract_priority ''start working on presentation'' = ''MEDIUM''"
    by code_simp+
  have 2: "strip (lower ''Delete old appointment'') = ''delete old appointment''"
    "extract_title ''delete old appointment'' = Inr ''delete old appointment''"
    "extract_time ''delete old appointment'' = None"
    "\<not> any_in [''help'', ''what can you do'', ''how do you work'', ''commands'']
        ''delete old appointment''"
    "any_in [''schedule'', ''plan'', ''appointment'', ''meeting'', ''remind'', ''at'', ''on'', ''book'']
       ''delete old appointment''"
    "\<not> is_in ''today'' ''delete old appointment''"
    "\<not> is_in ''tomorrow'' ''delete old appointment''"
    "\<not> is_in ''remind'' ''delete old appointment''"
    "extract_priority ''delete old appointment'' = ''MEDIUM''"
    by code_simp+
  show "parse_with_patterns today ''Start working on presentation'' =
     Inr [''action'' \<mapsto> PStr ''create'', ''confidence'' \<mapsto> POther ''0.8'' True,
          ''task_title'' \<mapsto> PStr ''start working  presentation'', ''priority'' \<mapsto> PStr ''MEDIUM'']"
    by (simp add: parse_with_patterns_def 1 schedule_command_def extract_date_def set_if_def
          conf_def Let_def)
  show "parse_with_patterns today ''Delete old appointment'' =
     Inr [''action'' \<mapsto> PStr ''create'', ''confidence'' \<mapsto> POther ''0.8'' True,
          ''task_title'' \<mapsto> PStr ''delete old appointment'', ''priority'' \<mapsto> PStr ''MEDIUM'']"
    by (simp add: parse_with_patterns_def 2 schedule_command_def extract_date_def set_if_def
          conf_def Let_def)
qed

text \<open>
  When a descriptor of \<open>update_state\<close> for the title "Presentation" does reach the
  dispatcher, both tasks match and the response is the failure naming both.
\<close>

lemma ambiguous_presentation:
  "execute_action plain_library
     [''action'' \<mapsto> PStr ''update_state'', ''task_title'' \<mapsto> PStr ''Presentation'',
      ''new_state'' \<mapsto> PStr ''Completed''] 7
     [mk_task 4 ''Presentation draft'' NOT_STARTED 7, mk_task 5 ''Presentation review'' NOT_STARTED 7] =
   (\<lparr>success = False,
     message = Text ''Multiple tasks found: Presentation draft, Presentation review. Please be more specific.'',
     action = None, r_task_id = None, tasks = None\<rparr>,
    [mk_task 4 ''Presentation draft'' NOT_STARTED 7, mk_task 5 ''Presentation review'' NOT_STARTED 7])"
proof -
  have s: "strip ''Presentation'' = ''Presentation''"
    by code_simp
  have m: "search_tasks_by_title (title_contains plain_library) ''Presentation'' 7
             [mk_task 4 ''Presentation draft'' NOT_STARTED 7, mk_task 5 ''Presentation review'' NOT_STARTED 7] =
           [mk_task 4 ''Presentation draft'' NOT_STARTED 7, mk_task 5 ''Presentation review'' NOT_STARTED 7]"
    by code_simp
  have "execute_action plain_library
     [''action'' \<mapsto> PStr ''update_state'', ''task_title'' \<mapsto> PStr ''Presentation'',
      ''new_state'' \<mapsto> PStr ''Completed''] 7
     [mk_task 4 ''Presentation draft'' NOT_STARTED 7, mk_task 5 ''Presentation review'' NOT_STARTED 7] =
   (failure (multiple_found
      [mk_task 4 ''Presentation draft'' NOT_STARTED 7, mk_task 5 ''Presentation review'' NOT_STARTED 7]),
    [mk_task 4 ''Presentation draft'' NOT_STARTED 7, mk_task 5 ''Presentation review'' NOT_STARTED 7])"
    using ambiguous_title_fails [of
        "[''action'' \<mapsto> PStr ''update_state'', ''task_title'' \<mapsto> PStr ''Presentation'',
          ''new_state'' \<mapsto> PStr ''Completed'']" "''Presentation''" plain_library 7
        "[mk_task 4 ''Presentation draft'' NOT_STARTED 7, mk_task 5 ''Presentation review'' NOT_STARTED 7]"]
    by (simp add: s m get_def get_or_def)
  then show ?thesis
    by (simp add: failure_def multiple_found_def mk_task_def)
qed


end
